theory Spec2Isabelle
  imports Complex_Main
begin

text \<open>
  A shallow embedding of \<^verbatim>\<open>future_prediction.py\<close>: the classes \<^verbatim>\<open>ConvBlock\<close>,
  \<^verbatim>\<open>SpatialGRU\<close>, \<^verbatim>\<open>Interpolate\<close>, \<^verbatim>\<open>Bottleneck\<close> and \<^verbatim>\<open>FuturePrediction\<close>, each
  with its constructor and its forward pass.  A module is a record of its attributes, a
  constructor or forward pass a function into \<open>error + result\<close>, a loop a recursive
  function over its range.

  Three things are idealised.  Tensor elements are real numbers.  The numeric maps of
  layers with learned or random state (convolution, normalisation, dropout) are
  parameters, so every theorem holds for all weights; the shapes they produce and the
  exceptions they raise are modelled.  The train/eval mode is one flag for the whole
  module tree.
\<close>

section \<open>Exceptions as values\<close>

text \<open>
  Every \<^verbatim>\<open>raise\<close>, failed \<^verbatim>\<open>assert\<close> and library exception of the Python source is
  a value of type \<open>error\<close>; a computation that may raise returns \<open>error + 'a\<close> with
  \<open>Inl\<close> for the exception.  The string is the exception's message; where the library
  formats a value into the message (the refused dropout probability, the size of a
  refused batch), the string is the fixed head of the message and that tail is left out.
  \<open>WarpError\<close> stands for any exception raised inside \<^verbatim>\<open>utils.warp_features\<close>, whose
  code is not part of the sources.
\<close>

datatype error =
    AssertionError string
  | ValueError string
  | TypeError string
  | RuntimeError string
  | NameError string
  | IndexError string
  | NotImplementedError string
  | WarpError

definition bindE :: "error + 'a \<Rightarrow> ('a \<Rightarrow> error + 'b) \<Rightarrow> error + 'b" where
  "bindE r f = (case r of Inl e \<Rightarrow> Inl e | Inr v \<Rightarrow> f v)"

text \<open>Python's \<^verbatim>\<open>str(n)\<close> for a non-negative integer, used by the f-string of
  \<^verbatim>\<open>SpatialGRU.forward\<close>.\<close>

definition digit_char :: "nat \<Rightarrow> char" where
  "digit_char d = ''0123456789'' ! d"

function str_nat :: "nat \<Rightarrow> string" where
  "str_nat n = (if n < 10 then [digit_char n] else str_nat (n div 10) @ [digit_char (n mod 10)])"
  by pat_completeness auto
termination
  by (relation "measure id") auto

text \<open>Python's \<^verbatim>\<open>a or b\<close> on an optional integer: \<^verbatim>\<open>None\<close> and \<^verbatim>\<open>0\<close> are falsy.\<close>

definition py_or :: "nat option \<Rightarrow> nat \<Rightarrow> nat" where
  "py_or a b = (case a of None \<Rightarrow> b | Some n \<Rightarrow> if n = 0 then b else n)"

section \<open>Tensors\<close>

text \<open>
  A tensor is its shape and its elements in row-major (contiguous) order.  The
  elements are idealised as real numbers: rounding of the floating-point backend is
  not modelled.  A tensor is \<open>valid\<close> when it has as many elements as its shape
  says; every tensor the library creates is, and statements about elements assume it
  of the tensors they are given.
\<close>

record tensor =
  shape :: "nat list"
  elems :: "real list"

definition numel :: "nat list \<Rightarrow> nat" where
  "numel s = prod_list s"

definition valid :: "tensor \<Rightarrow> bool" where
  "valid x \<longleftrightarrow> length (elems x) = numel (shape x)"

text \<open>Row-major offset of a multi-index, and the multi-index of an offset.\<close>

fun ravel :: "nat list \<Rightarrow> nat list \<Rightarrow> nat" where
  "ravel (d # ds) (i # is) = i * numel ds + ravel ds is"
| "ravel _ _ = 0"

fun unravel :: "nat list \<Rightarrow> nat \<Rightarrow> nat list" where
  "unravel [] k = []"
| "unravel (d # ds) k = (k div numel ds) # unravel ds (k mod numel ds)"

fun in_range :: "nat list \<Rightarrow> nat list \<Rightarrow> bool" where
  "in_range [] [] = True"
| "in_range (d # ds) (i # is) = (i < d \<and> in_range ds is)"
| "in_range _ _ = False"

definition tensor_at :: "tensor \<Rightarrow> nat list \<Rightarrow> real" where
  "tensor_at x idx = elems x ! ravel (shape x) idx"

definition tabulate :: "nat list \<Rightarrow> (nat list \<Rightarrow> real) \<Rightarrow> tensor" where
  "tabulate s f = \<lparr>shape = s, elems = map (\<lambda>k. f (unravel s k)) [0..<numel s]\<rparr>"

section \<open>The tensor library\<close>

text \<open>
  PyTorch is external to the repository.  Its operators are modelled after their
  documentation: result shapes and raised exceptions concretely, data movement
  (indexing, concatenation, stacking, padding, broadcasting) element by element.
  Tensors of the model are contiguous.
\<close>

text \<open>\<^verbatim>\<open>torch.zeros(*size)\<close>\<close>

definition zeros :: "nat list \<Rightarrow> tensor" where
  "zeros s = \<lparr>shape = s, elems = replicate (numel s) 0\<rparr>"

text \<open>\<^verbatim>\<open>x[:, t]\<close> for a non-negative index \<open>t\<close>.\<close>

definition select_dim1 :: "tensor \<Rightarrow> nat \<Rightarrow> error + tensor" where
  "select_dim1 x t =
     (case shape x of
        b # n # rest \<Rightarrow>
          if t < n
          then Inr (tabulate (b # rest)
                 (\<lambda>idx. case idx of i # r \<Rightarrow> tensor_at x (i # t # r) | [] \<Rightarrow> 0))
          else Inl (IndexError ''index out of bounds for dimension 1'')
      | _ \<Rightarrow> Inl (IndexError ''too many indices for tensor''))"

text \<open>\<^verbatim>\<open>torch.cat([a, b], dim=1)\<close>.  A one-dimensional empty operand is skipped, as
  the library still does for legacy reasons.\<close>

definition cat_dim1 :: "tensor \<Rightarrow> tensor \<Rightarrow> error + tensor" where
  "cat_dim1 a b =
     (if shape b = [0] \<and> 2 \<le> length (shape a) then Inr a
      else if shape a = [0] \<and> 2 \<le> length (shape b) then Inr b
      else (case (shape a, shape b) of
        (n # ca # ra, m # cb # rb) \<Rightarrow>
          if n = m \<and> ra = rb
          then Inr (tabulate (n # (ca + cb) # ra)
                 (\<lambda>idx. case idx of
                    i # c # r \<Rightarrow>
                      if c < ca then tensor_at a (i # c # r) else tensor_at b (i # (c - ca) # r)
                  | _ \<Rightarrow> 0))
          else Inl (RuntimeError ''Sizes of tensors must match except in dimension 1'')
      | _ \<Rightarrow> Inl (IndexError ''Dimension out of range'')))"

text \<open>\<^verbatim>\<open>torch.stack(ts, dim=1)\<close>\<close>

definition stack_dim1 :: "tensor list \<Rightarrow> error + tensor" where
  "stack_dim1 ts =
     (case ts of
        [] \<Rightarrow> Inl (RuntimeError ''stack expects a non-empty TensorList'')
      | t0 # _ \<Rightarrow>
          if \<exists>t \<in> set ts. shape t \<noteq> shape t0
          then Inl (RuntimeError ''stack expects each tensor to be equal size'')
          else (case shape t0 of
            [] \<Rightarrow> Inl (IndexError ''Dimension out of range'')
          | n # rest \<Rightarrow>
              Inr (tabulate (n # length ts # rest)
                (\<lambda>idx. case idx of i # t # r \<Rightarrow> tensor_at (ts ! t) (i # r) | _ \<Rightarrow> 0))))"

text \<open>\<^verbatim>\<open>x.view(*size)\<close> on a contiguous tensor.\<close>

definition view :: "tensor \<Rightarrow> nat list \<Rightarrow> error + tensor" where
  "view x s =
     (if numel s = numel (shape x) then Inr (x\<lparr>shape := s\<rparr>)
      else Inl (RuntimeError ''shape is invalid for input size''))"

text \<open>Elementwise operations with a Python scalar and between tensors; operands of
  different shapes are broadcast.\<close>

definition map_tensor :: "(real \<Rightarrow> real) \<Rightarrow> tensor \<Rightarrow> tensor" where
  "map_tensor f x = x\<lparr>elems := map f (elems x)\<rparr>"

fun broadcast_rev :: "nat list \<Rightarrow> nat list \<Rightarrow> nat list option" where
  "broadcast_rev [] ys = Some ys"
| "broadcast_rev xs [] = Some xs"
| "broadcast_rev (x # xs) (y # ys) =
     (if x = y \<or> y = 1 then map_option ((#) x) (broadcast_rev xs ys)
      else if x = 1 then map_option ((#) y) (broadcast_rev xs ys)
      else None)"

definition broadcast_shapes :: "nat list \<Rightarrow> nat list \<Rightarrow> nat list option" where
  "broadcast_shapes a b = map_option rev (broadcast_rev (rev a) (rev b))"

definition expand :: "nat list \<Rightarrow> tensor \<Rightarrow> tensor" where
  "expand s x =
     tabulate s (\<lambda>idx. tensor_at x
       (map2 (\<lambda>d i. if d = 1 then 0 else i) (shape x) (drop (length s - length (shape x)) idx)))"

definition binop :: "(real \<Rightarrow> real \<Rightarrow> real) \<Rightarrow> tensor \<Rightarrow> tensor \<Rightarrow> error + tensor" where
  "binop f a b =
     (if shape a = shape b
      then Inr \<lparr>shape = shape a, elems = map2 f (elems a) (elems b)\<rparr>
      else (case broadcast_shapes (shape a) (shape b) of
        None \<Rightarrow> Inl (RuntimeError ''The size of tensor a must match the size of tensor b'')
      | Some s \<Rightarrow>
          Inr \<lparr>shape = s, elems = map2 f (elems (expand s a)) (elems (expand s b))\<rparr>))"

definition tensor_add :: "tensor \<Rightarrow> tensor \<Rightarrow> error + tensor" where
  "tensor_add = binop (+)"

definition tensor_mul :: "tensor \<Rightarrow> tensor \<Rightarrow> error + tensor" where
  "tensor_mul = binop (*)"

text \<open>\<^verbatim>\<open>nn.functional.pad(x, (0, pw, 0, ph), value=0)\<close>: \<open>pw\<close> columns on the right
  and \<open>ph\<close> rows at the bottom.\<close>

definition pad_right_bottom :: "tensor \<Rightarrow> nat \<Rightarrow> nat \<Rightarrow> error + tensor" where
  "pad_right_bottom x pw ph =
     (case rev (shape x) of
        w # h # lead \<Rightarrow>
          Inr (tabulate (rev lead @ [h + ph, w + pw])
            (\<lambda>idx. if in_range (shape x) idx then tensor_at x idx else 0))
      | _ \<Rightarrow> Inl (RuntimeError ''Padding length too large''))"

text \<open>
  The run-time environment of a forward pass: the transcendental kernels of the
  numeric backend (\<^verbatim>\<open>torch.sigmoid\<close>, \<^verbatim>\<open>tanh\<close>, and \<^verbatim>\<open>expm1\<close> for ELU), which in
  floating point saturate and are therefore not fixed to the real functions; the
  modules' mode flag (\<^verbatim>\<open>Module.training\<close>, \<^verbatim>\<open>True\<close> after construction); and
  \<^verbatim>\<open>utils.warp_features\<close>, imported by the source from a file outside the sources
  (\<open>None\<close> when it raises).
\<close>

record env =
  sigmoid_fn :: "real \<Rightarrow> real"
  tanh_fn :: "real \<Rightarrow> real"
  expm1_fn :: "real \<Rightarrow> real"
  training :: bool
  warp_features :: "tensor \<Rightarrow> tensor \<Rightarrow> string \<Rightarrow> tensor option"


section \<open>Library layers\<close>

text \<open>
  The numeric map of a layer with learned or random state (convolution weights,
  normalisation statistics, the dropout mask) is opaque: a function giving, for an
  input tensor, the output element at each row-major offset.  The shape of the output
  and the exceptions are those of the library.
\<close>

type_synonym numfn = "tensor \<Rightarrow> nat \<Rightarrow> real"

record conv_args =
  cv_in :: nat
  cv_out :: nat
  cv_kernel :: nat
  cv_stride :: nat
  cv_padding :: nat
  cv_dilation :: nat
  cv_groups :: nat
  cv_bias :: bool
  cv_output_padding :: nat

datatype layer =
    Conv2d conv_args numfn
  | ConvTranspose2d conv_args numfn
  | BatchNorm2d nat numfn
  | InstanceNorm2d nat numfn
  | ReLU
  | LeakyReLU real
  | ELU
  | Tanh
  | Dropout2d real numfn
  | MaxPool2d nat nat
  | Interpolate nat

text \<open>Constructors that validate their arguments.\<close>

definition check_groups :: "conv_args \<Rightarrow> error option" where
  "check_groups a =
     (if cv_groups a = 0 then Some (ValueError ''groups must be a positive integer'')
      else if cv_in a mod cv_groups a \<noteq> 0
        then Some (ValueError ''in_channels must be divisible by groups'')
      else if cv_out a mod cv_groups a \<noteq> 0
        then Some (ValueError ''out_channels must be divisible by groups'')
      else None)"

definition Conv2d_new :: "conv_args \<Rightarrow> numfn \<Rightarrow> error + layer" where
  "Conv2d_new a w = (case check_groups a of Some e \<Rightarrow> Inl e | None \<Rightarrow> Inr (Conv2d a w))"

definition ConvTranspose2d_new :: "conv_args \<Rightarrow> numfn \<Rightarrow> error + layer" where
  "ConvTranspose2d_new a w =
     (case check_groups a of Some e \<Rightarrow> Inl e | None \<Rightarrow> Inr (ConvTranspose2d a w))"

definition Dropout2d_new :: "real \<Rightarrow> numfn \<Rightarrow> error + layer" where
  "Dropout2d_new p w =
     (if p < 0 \<or> 1 < p
      then Inl (ValueError ''dropout probability has to be between 0 and 1'')
      else Inr (Dropout2d p w))"

text \<open>The tensor a layer returns: the library's output shape, filled by the layer's
  numeric map.\<close>

definition produced :: "numfn \<Rightarrow> tensor \<Rightarrow> nat list \<Rightarrow> tensor" where
  "produced w x s = \<lparr>shape = s, elems = map (w x) [0..<numel s]\<rparr>"

text \<open>A two-dimensional layer takes a batched input \<open>[N, C, H, W]\<close> or an unbatched
  one \<open>[C, H, W]\<close>.  A convolution refuses a weight with fewer output channels than
  groups, in particular one without output channels, and an input without channels
  yields an output without channels.\<close>

definition split_nchw :: "nat list \<Rightarrow> (nat list \<times> nat \<times> nat \<times> nat) option" where
  "split_nchw s =
     (case s of
        [n, c, h, w] \<Rightarrow> Some ([n], c, h, w)
      | [c, h, w] \<Rightarrow> Some ([], c, h, w)
      | _ \<Rightarrow> None)"

definition conv_out_size :: "conv_args \<Rightarrow> nat \<Rightarrow> nat" where
  "conv_out_size a n =
     (n + 2 * cv_padding a - cv_dilation a * (cv_kernel a - 1) - 1) div cv_stride a + 1"

definition conv2d_forward :: "conv_args \<Rightarrow> numfn \<Rightarrow> tensor \<Rightarrow> error + tensor" where
  "conv2d_forward a wt x =
     (case split_nchw (shape x) of
        None \<Rightarrow> Inl (RuntimeError ''Expected 3D (unbatched) or 4D (batched) input to conv2d'')
      | Some (lead, c, h, w) \<Rightarrow>
          if cv_stride a = 0
            then Inl (RuntimeError ''non-positive stride is not supported'')
          else if cv_kernel a = 0 \<or> cv_dilation a = 0
            then Inl (RuntimeError ''kernel size and dilation should be greater than zero'')
          else if cv_out a < cv_groups a
            then Inl (RuntimeError ''expected weight to be at least groups at dimension 0'')
          else if c \<noteq> cv_in a
            then Inl (RuntimeError ''input channels do not match the weight'')
          else if h + 2 * cv_padding a < cv_dilation a * (cv_kernel a - 1) + 1
                  \<or> w + 2 * cv_padding a < cv_dilation a * (cv_kernel a - 1) + 1
            then Inl (RuntimeError ''Kernel size can't be greater than actual input size'')
          else Inr (produced wt x
                 (lead @ [if c = 0 then 0 else cv_out a, conv_out_size a h, conv_out_size a w])))"

definition conv_transpose_out_size :: "conv_args \<Rightarrow> nat \<Rightarrow> nat" where
  "conv_transpose_out_size a n =
     (n - 1) * cv_stride a + cv_dilation a * (cv_kernel a - 1) + cv_output_padding a + 1
       - 2 * cv_padding a"

definition conv_transpose2d_forward :: "conv_args \<Rightarrow> numfn \<Rightarrow> tensor \<Rightarrow> error + tensor" where
  "conv_transpose2d_forward a wt x =
     (case split_nchw (shape x) of
        None \<Rightarrow>
          Inl (RuntimeError ''Expected 3D (unbatched) or 4D (batched) input to conv_transpose2d'')
      | Some (lead, c, h, w) \<Rightarrow>
          if cv_stride a = 0
            then Inl (RuntimeError ''non-positive stride is not supported'')
          else if cv_kernel a = 0 \<or> cv_dilation a = 0
            then Inl (RuntimeError ''kernel size and dilation should be greater than zero'')
          else if cv_in a < cv_groups a
            then Inl (RuntimeError ''expected weight to be at least groups at dimension 0'')
          else if c \<noteq> cv_in a
            then Inl (RuntimeError ''input channels do not match the weight'')
          else if max (cv_stride a) (cv_dilation a) \<le> cv_output_padding a
            then Inl (RuntimeError
              ''output padding must be smaller than either stride or dilation'')
          else if h = 0 \<or> w = 0 \<or> conv_transpose_out_size a h = 0
                  \<or> conv_transpose_out_size a w = 0
            then Inl (RuntimeError ''Given input size would make the output too small'')
          else Inr (produced wt x
                 (lead @ [cv_out a, conv_transpose_out_size a h, conv_transpose_out_size a w])))"

definition batch_norm2d_forward :: "env \<Rightarrow> nat \<Rightarrow> numfn \<Rightarrow> tensor \<Rightarrow> error + tensor" where
  "batch_norm2d_forward ev c wt x =
     (case shape x of
        [n, ch, h, w] \<Rightarrow>
          if training ev \<and> n * h * w = 1
            then Inl (ValueError ''Expected more than 1 value per channel when training'')
          else if ch \<noteq> c
            then Inl (RuntimeError ''running_mean should contain as many elements as channels'')
          else Inr (produced wt x (shape x))
      | _ \<Rightarrow> Inl (ValueError ''expected 4D input''))"

definition instance_norm2d_forward :: "nat \<Rightarrow> numfn \<Rightarrow> tensor \<Rightarrow> error + tensor" where
  "instance_norm2d_forward c wt x =
     (case split_nchw (shape x) of
        None \<Rightarrow> Inl (ValueError ''expected 3D or 4D input'')
      | Some (lead, ch, h, w) \<Rightarrow>
          if h * w = 1
            then Inl (ValueError ''Expected more than 1 spatial element when training'')
          else Inr (produced wt x (shape x)))"

definition dropout2d_forward :: "env \<Rightarrow> real \<Rightarrow> numfn \<Rightarrow> tensor \<Rightarrow> error + tensor" where
  "dropout2d_forward ev p wt x =
     (if training ev \<and> 0 < p then Inr (produced wt x (shape x)) else Inr x)"

definition max_pool2d_forward :: "nat \<Rightarrow> nat \<Rightarrow> tensor \<Rightarrow> error + tensor" where
  "max_pool2d_forward k st x =
     (case split_nchw (shape x) of
        None \<Rightarrow> Inl (RuntimeError ''Expected 3D or 4D input to max_pool2d'')
      | Some (lead, c, h, w) \<Rightarrow>
          if k = 0 \<or> st = 0
            then Inl (RuntimeError ''kernel size and stride should be greater than zero'')
          else if h < k \<or> w < k
            then Inl (RuntimeError ''Output size is too small'')
          else Inr (tabulate (lead @ [c, (h - k) div st + 1, (w - k) div st + 1])
                 (\<lambda>idx. case rev idx of
                    j # i # pre \<Rightarrow>
                      (let vals = concat (map (\<lambda>di. map (\<lambda>dj.
                                    tensor_at x (rev pre @ [i * st + di, j * st + dj]))
                                  [0..<k]) [0..<k])
                       in fold max (tl vals) (hd vals))
                  | _ \<Rightarrow> 0)))"

text \<open>The source's \<^verbatim>\<open>Interpolate.forward\<close>:
  \<^verbatim>\<open>interpolate(x, scale_factor=self._scale_factor, mode='bilinear', align_corners=False)\<close>.\<close>

definition source_index :: "nat \<Rightarrow> nat \<Rightarrow> real" where
  "source_index sf d = max 0 ((real d + 1 / 2) / real sf - 1 / 2)"

definition interpolate_forward :: "nat \<Rightarrow> tensor \<Rightarrow> error + tensor" where
  "interpolate_forward sf x =
     (case shape x of
        [n, c, h, w] \<Rightarrow>
          if h * sf = 0 \<or> w * sf = 0
            then Inl (RuntimeError ''Input and output sizes should be greater than 0'')
          else Inr (tabulate [n, c, h * sf, w * sf]
                 (\<lambda>idx. case idx of
                    [b, ch, i, j] \<Rightarrow>
                      (let si = source_index sf i; sj = source_index sf j;
                           i0 = nat \<lfloor>si\<rfloor>; j0 = nat \<lfloor>sj\<rfloor>;
                           i1 = min (i0 + 1) (h - 1); j1 = min (j0 + 1) (w - 1);
                           li = si - real i0; lj = sj - real j0
                       in (1 - li) * ((1 - lj) * tensor_at x [b, ch, i0, j0]
                                        + lj * tensor_at x [b, ch, i0, j1])
                          + li * ((1 - lj) * tensor_at x [b, ch, i1, j0]
                                    + lj * tensor_at x [b, ch, i1, j1]))
                  | _ \<Rightarrow> 0))
      | _ \<Rightarrow> Inl (NotImplementedError ''bilinear mode needs 4D input''))"

fun layer_forward :: "env \<Rightarrow> layer \<Rightarrow> tensor \<Rightarrow> error + tensor" where
  "layer_forward ev (Conv2d a wt) x = conv2d_forward a wt x"
| "layer_forward ev (ConvTranspose2d a wt) x = conv_transpose2d_forward a wt x"
| "layer_forward ev (BatchNorm2d c wt) x = batch_norm2d_forward ev c wt x"
| "layer_forward ev (InstanceNorm2d c wt) x = instance_norm2d_forward c wt x"
| "layer_forward ev ReLU x = Inr (map_tensor (max 0) x)"
| "layer_forward ev (LeakyReLU slope) x =
     Inr (map_tensor (\<lambda>v. if 0 \<le> v then v else slope * v) x)"
| "layer_forward ev ELU x = Inr (map_tensor (\<lambda>v. if 0 < v then v else expm1_fn ev v) x)"
| "layer_forward ev Tanh x = Inr (map_tensor (tanh_fn ev) x)"
| "layer_forward ev (Dropout2d p wt) x = dropout2d_forward ev p wt x"
| "layer_forward ev (MaxPool2d k st) x = max_pool2d_forward k st x"
| "layer_forward ev (Interpolate sf) x = interpolate_forward sf x"

text \<open>\<^verbatim>\<open>nn.Sequential.forward\<close>: the layers in order, stopping at the first exception.\<close>

fun sequential_forward :: "env \<Rightarrow> layer list \<Rightarrow> tensor \<Rightarrow> error + tensor" where
  "sequential_forward ev [] x = Inr x"
| "sequential_forward ev (l # ls) x =
     (case layer_forward ev l x of Inl e \<Rightarrow> Inl e | Inr y \<Rightarrow> sequential_forward ev ls y)"


text \<open>
  What the constructors of the library and Python's built-in list refuse.
  \<^verbatim>\<open>nn.Tanh\<close> declares no constructor parameter, so a keyword argument reaches
  \<^verbatim>\<open>nn.Module.__init__\<close>, which raises.  \<^verbatim>\<open>list.append\<close> takes exactly one
  argument.  \<^verbatim>\<open>nn.Sequential\<close> takes modules as separate arguments; a Python list
  among them is refused when it is registered as a sub-module.
\<close>

definition Tanh_new :: "string list \<Rightarrow> error + layer" where
  "Tanh_new kwargs =
     (case kwargs of
        [] \<Rightarrow> Inr Tanh
      | k # _ \<Rightarrow>
          Inl (TypeError (''Tanh.__init__() got an unexpected keyword argument ''
                 @ [CHR 0x27] @ k @ [CHR 0x27])))"

definition list_append :: "'a list \<Rightarrow> 'a list \<Rightarrow> error + 'a list" where
  "list_append xs args =
     (case args of
        [a] \<Rightarrow> Inr (xs @ [a])
      | _ \<Rightarrow> Inl (TypeError (''list.append() takes exactly one argument (''
                 @ str_nat (length args) @ '' given)'')))"

datatype 'm pyarg = Module 'm | PyList "'m list"

fun Sequential_new :: "'m pyarg list \<Rightarrow> error + 'm list" where
  "Sequential_new [] = Inr []"
| "Sequential_new (Module m # args) =
     (case Sequential_new args of Inl e \<Rightarrow> Inl e | Inr ms \<Rightarrow> Inr (m # ms))"
| "Sequential_new (PyList l # args) = Inl (TypeError ''list is not a Module subclass'')"

text \<open>Learned parameters are supplied to the constructors by name: a path of
  indices into the module tree.\<close>

type_synonym params = "nat list \<Rightarrow> numfn"

text \<open>The defaults of \<^verbatim>\<open>nn.Conv2d(in_channels, out_channels, kernel_size)\<close>.\<close>

definition conv_defaults :: "nat \<Rightarrow> nat \<Rightarrow> nat \<Rightarrow> conv_args" where
  "conv_defaults i out k =
     \<lparr>cv_in = i, cv_out = out, cv_kernel = k, cv_stride = 1, cv_padding = 0, cv_dilation = 1,
      cv_groups = 1, cv_bias = True, cv_output_padding = 0\<rparr>"

section \<open>ConvBlock\<close>

record ConvBlock_args =
  cb_in_channels :: nat
  cb_out_channels :: "nat option"
  cb_kernel_size :: nat
  cb_stride :: nat
  cb_norm :: string
  cb_activation :: string
  cb_bias :: bool
  cb_transpose :: bool

definition ConvBlock_defaults :: "nat \<Rightarrow> ConvBlock_args" where
  "ConvBlock_defaults c =
     \<lparr>cb_in_channels = c, cb_out_channels = None, cb_kernel_size = 3, cb_stride = 1,
      cb_norm = ''bn'', cb_activation = ''relu'', cb_bias = False, cb_transpose = False\<rparr>"

record ConvBlock =
  conv_layer :: layer
  norm_layer :: "layer option"
  activation_layer :: "layer option"

text \<open>\<^verbatim>\<open>ConvBlock.__init__\<close>.  The name \<^verbatim>\<open>partial\<close> is used for the transposed
  variant but never imported.\<close>

definition ConvBlock_init :: "params \<Rightarrow> ConvBlock_args \<Rightarrow> error + ConvBlock" where
  "ConvBlock_init \<theta> a =
     (let out_channels = py_or (cb_out_channels a) (cb_in_channels a);
          padding = (cb_kernel_size a - 1) div 2
      in
      bindE (if \<not> cb_transpose a
             then Conv2d_new
                    ((conv_defaults (cb_in_channels a) out_channels (cb_kernel_size a))
                       \<lparr>cv_stride := cb_stride a, cv_padding := padding, cv_bias := cb_bias a\<rparr>)
                    (\<theta> [0])
             else Inl (NameError ''name 'partial' is not defined''))
        (\<lambda>conv.
      bindE (if cb_norm a = ''bn'' then Inr (Some (BatchNorm2d out_channels (\<theta> [1])))
             else if cb_norm a = ''in'' then Inr (Some (InstanceNorm2d out_channels (\<theta> [1])))
             else if cb_norm a = ''none'' then Inr None
             else Inl (ValueError (''Invalid norm '' @ cb_norm a)))
        (\<lambda>nrm.
      bindE (if cb_activation a = ''relu'' then Inr (Some ReLU)
             else if cb_activation a = ''lrelu'' then Inr (Some (LeakyReLU (1 / 10)))
             else if cb_activation a = ''elu'' then Inr (Some ELU)
             else if cb_activation a = ''tanh'' then map_sum id Some (Tanh_new [''inplace''])
             else if cb_activation a = ''none'' then Inr None
             else Inl (ValueError (''Invalid activation '' @ cb_activation a)))
        (\<lambda>activation.
      Inr \<lparr>conv_layer = conv, norm_layer = nrm, activation_layer = activation\<rparr>))))"

text \<open>\<^verbatim>\<open>ConvBlock.forward\<close>\<close>

definition ConvBlock_forward :: "env \<Rightarrow> ConvBlock \<Rightarrow> tensor \<Rightarrow> error + tensor" where
  "ConvBlock_forward ev m x =
     bindE (layer_forward ev (conv_layer m) x) (\<lambda>x.
     bindE (case norm_layer m of Some n \<Rightarrow> layer_forward ev n x | None \<Rightarrow> Inr x) (\<lambda>x.
     (case activation_layer m of Some act \<Rightarrow> layer_forward ev act x | None \<Rightarrow> Inr x)))"

section \<open>SpatialGRU\<close>

record SpatialGRU =
  input_size :: nat
  hidden_size :: nat
  gru_bias_init :: real
  conv_update :: layer
  conv_reset :: layer
  conv_state_tilde :: ConvBlock

text \<open>\<^verbatim>\<open>SpatialGRU.__init__(input_size, hidden_size, gru_bias_init, norm, activation)\<close>\<close>

definition SpatialGRU_init ::
  "params \<Rightarrow> nat \<Rightarrow> nat \<Rightarrow> real \<Rightarrow> string \<Rightarrow> string \<Rightarrow> error + SpatialGRU" where
  "SpatialGRU_init \<theta> input_sz hidden_sz bias_init nrm activation =
     bindE (Conv2d_new ((conv_defaults (input_sz + hidden_sz) hidden_sz 3)
                          \<lparr>cv_bias := True, cv_padding := 1\<rparr>) (\<theta> [0])) (\<lambda>cu.
     bindE (Conv2d_new ((conv_defaults (input_sz + hidden_sz) hidden_sz 3)
                          \<lparr>cv_bias := True, cv_padding := 1\<rparr>) (\<theta> [1])) (\<lambda>cr.
     bindE (ConvBlock_init (\<lambda>p. \<theta> (2 # p))
              ((ConvBlock_defaults (input_sz + hidden_sz))
                 \<lparr>cb_out_channels := Some hidden_sz, cb_kernel_size := 3, cb_bias := False,
                  cb_norm := nrm, cb_activation := activation\<rparr>)) (\<lambda>cst.
     Inr \<lparr>input_size = input_sz, hidden_size = hidden_sz, gru_bias_init = bias_init,
          conv_update = cu, conv_reset = cr, conv_state_tilde = cst\<rparr>)))"

text \<open>\<^verbatim>\<open>SpatialGRU.gru_cell\<close>\<close>

definition gru_cell :: "env \<Rightarrow> SpatialGRU \<Rightarrow> tensor \<Rightarrow> tensor \<Rightarrow> error + tensor" where
  "gru_cell ev m x state =
     bindE (cat_dim1 x state) (\<lambda>x_and_state.
     bindE (layer_forward ev (conv_update m) x_and_state) (\<lambda>update_gate.
     bindE (layer_forward ev (conv_reset m) x_and_state) (\<lambda>reset_gate.
     let update_gate = map_tensor (sigmoid_fn ev)
                         (map_tensor (\<lambda>v. v + gru_bias_init m) update_gate);
         reset_gate = map_tensor (sigmoid_fn ev)
                        (map_tensor (\<lambda>v. v + gru_bias_init m) reset_gate)
     in
     bindE (tensor_mul (map_tensor (\<lambda>v. 1 - v) reset_gate) state) (\<lambda>gated.
     bindE (cat_dim1 x gated) (\<lambda>x_and_gated.
     bindE (ConvBlock_forward ev (conv_state_tilde m) x_and_gated) (\<lambda>state_tilde.
     bindE (tensor_mul (map_tensor (\<lambda>v. 1 - v) update_gate) state) (\<lambda>keep.
     bindE (tensor_mul update_gate state_tilde) (\<lambda>new.
     tensor_add keep new))))))))"

text \<open>The optional motion compensation at the head of the loop body:
  \<^verbatim>\<open>if flow is not None: rnn_state = warp_features(rnn_state, flow[:, t], mode=mode)\<close>.\<close>

definition warp_step ::
  "env \<Rightarrow> tensor option \<Rightarrow> string \<Rightarrow> nat \<Rightarrow> tensor \<Rightarrow> error + tensor" where
  "warp_step ev flow mode t rnn_state =
     (case flow of
        None \<Rightarrow> Inr rnn_state
      | Some fl \<Rightarrow>
          bindE (select_dim1 fl t) (\<lambda>flow_t.
            case warp_features ev rnn_state flow_t mode of
              None \<Rightarrow> Inl WarpError
            | Some warped \<Rightarrow> Inr warped))"

text \<open>The body of the loop of \<^verbatim>\<open>SpatialGRU.forward\<close> at step \<open>t\<close>, as a function of
  the carried \<^verbatim>\<open>rnn_state\<close>: slice the input, warp, apply the cell.\<close>

definition rnn_step ::
  "env \<Rightarrow> SpatialGRU \<Rightarrow> tensor \<Rightarrow> tensor option \<Rightarrow> string \<Rightarrow> nat \<Rightarrow> tensor \<Rightarrow> error + tensor"
  where
  "rnn_step ev m x flow mode t rnn_state =
     bindE (select_dim1 x t) (\<lambda>x_t.
     bindE (warp_step ev flow mode t rnn_state) (\<lambda>rnn_state.
     gru_cell ev m x_t rnn_state))"

text \<open>The loop over \<^verbatim>\<open>range(timesteps)\<close>, carrying \<^verbatim>\<open>rnn_state\<close> and appending it to
  \<^verbatim>\<open>rnn_output\<close>.\<close>

fun rnn_loop ::
  "env \<Rightarrow> SpatialGRU \<Rightarrow> tensor \<Rightarrow> tensor option \<Rightarrow> string \<Rightarrow> nat list \<Rightarrow> tensor \<Rightarrow> tensor list
     \<Rightarrow> error + tensor list" where
  "rnn_loop ev m x flow mode [] rnn_state rnn_output = Inr rnn_output"
| "rnn_loop ev m x flow mode (t # ts) rnn_state rnn_output =
     bindE (rnn_step ev m x flow mode t rnn_state) (\<lambda>rnn_state.
     rnn_loop ev m x flow mode ts rnn_state (rnn_output @ [rnn_state]))"

text \<open>\<^verbatim>\<open>SpatialGRU.forward(x, state, flow, mode)\<close>\<close>

definition SpatialGRU_forward ::
  "env \<Rightarrow> SpatialGRU \<Rightarrow> tensor \<Rightarrow> tensor option \<Rightarrow> tensor option \<Rightarrow> string \<Rightarrow> error + tensor"
  where
  "SpatialGRU_forward ev m x state flow mode =
     (case shape x of
        [b, timesteps, c, h, w] \<Rightarrow>
          if c \<noteq> input_size m
          then Inl (AssertionError (''feature sizes must match, got input '' @ str_nat c
                      @ '' for layer with size '' @ str_nat (input_size m)))
          else
            (let rnn_state = (case state of None \<Rightarrow> zeros [b, hidden_size m, h, w]
                              | Some s \<Rightarrow> s)
             in bindE (rnn_loop ev m x flow mode [0..<timesteps] rnn_state []) stack_dim1)
      | _ \<Rightarrow> Inl (AssertionError ''Input tensor must be BxTxCxHxW.''))"


section \<open>Bottleneck\<close>

record Bottleneck_args =
  bk_in_channels :: nat
  bk_out_channels :: "nat option"
  bk_kernel_size :: nat
  bk_dilation :: nat
  bk_groups :: nat
  bk_upsample :: bool
  bk_downsample :: bool
  bk_dropout :: real

definition Bottleneck_defaults :: "nat \<Rightarrow> Bottleneck_args" where
  "Bottleneck_defaults c =
     \<lparr>bk_in_channels = c, bk_out_channels = None, bk_kernel_size = 3, bk_dilation = 1,
      bk_groups = 1, bk_upsample = False, bk_downsample = False, bk_dropout = 0\<rparr>"

record Bottleneck =
  downsample_flag :: bool
  layers :: "layer list"
  projection :: "layer list option"

text \<open>\<^verbatim>\<open>Bottleneck.__init__\<close>, statement by statement.\<close>

definition Bottleneck_init :: "params \<Rightarrow> Bottleneck_args \<Rightarrow> error + Bottleneck" where
  "Bottleneck_init \<theta> a =
     (let in_channels = bk_in_channels a;
          upsample = bk_upsample a;
          downsample = bk_downsample a;
          bottleneck_channels = in_channels div 2;
          out_channels = py_or (bk_out_channels a) in_channels;
          padding_size = ((bk_kernel_size a - 1) * bk_dilation a + 1) div 2;
          main_conv = (conv_defaults bottleneck_channels bottleneck_channels (bk_kernel_size a))
                        \<lparr>cv_bias := False, cv_padding := padding_size, cv_groups := bk_groups a\<rparr>
      in
      if bk_dilation a \<noteq> 1 then Inl (AssertionError [])
      else
      bindE (if upsample then
               (if downsample
                then Inl (AssertionError ''downsample and upsample not possible simultaneously.'')
                else ConvTranspose2d_new
                       (main_conv\<lparr>cv_dilation := 1, cv_stride := 2,
                                   cv_output_padding := padding_size\<rparr>) (\<theta> [0, 3]))
             else if downsample then
               Conv2d_new (main_conv\<lparr>cv_dilation := bk_dilation a, cv_stride := 2\<rparr>) (\<theta> [0, 3])
             else
               Conv2d_new (main_conv\<lparr>cv_dilation := bk_dilation a\<rparr>) (\<theta> [0, 3]))
        (\<lambda>bottleneck_conv.
      bindE (Conv2d_new ((conv_defaults in_channels bottleneck_channels 1)\<lparr>cv_bias := False\<rparr>)
               (\<theta> [0, 0])) (\<lambda>conv_in.
      bindE (Conv2d_new ((conv_defaults bottleneck_channels out_channels 1)\<lparr>cv_bias := False\<rparr>)
               (\<theta> [0, 6])) (\<lambda>conv_out.
      bindE (Dropout2d_new (bk_dropout a) (\<theta> [0, 9])) (\<lambda>dropout.
      bindE (Sequential_new (map Module
               [conv_in, BatchNorm2d bottleneck_channels (\<theta> [0, 1]), ReLU,
                bottleneck_conv, BatchNorm2d bottleneck_channels (\<theta> [0, 4]), ReLU,
                conv_out, BatchNorm2d out_channels (\<theta> [0, 7]), ReLU,
                dropout])) (\<lambda>seq.
      if out_channels = in_channels \<and> \<not> downsample \<and> \<not> upsample
      then Inr \<lparr>downsample_flag = downsample, layers = seq, projection = None\<rparr>
      else
        bindE (if upsample then list_append [] [Interpolate 2]
               else if downsample then list_append [] [MaxPool2d 2 2]
               else Inr []) (\<lambda>proj.
        bindE (Conv2d_new ((conv_defaults in_channels out_channels 1)\<lparr>cv_bias := False\<rparr>)
                 (\<theta> [1, 0])) (\<lambda>conv_proj.
        bindE (list_append proj [conv_proj, BatchNorm2d out_channels (\<theta> [1, 1])]) (\<lambda>proj.
        bindE (Sequential_new [PyList proj]) (\<lambda>pseq.
        Inr \<lparr>downsample_flag = downsample, layers = seq, projection = Some pseq\<rparr>))))))))))"

text \<open>\<^verbatim>\<open>Bottleneck.forward\<close>\<close>

definition Bottleneck_forward :: "env \<Rightarrow> Bottleneck \<Rightarrow> tensor \<Rightarrow> error + tensor" where
  "Bottleneck_forward ev m x =
     bindE (sequential_forward ev (layers m) x) (\<lambda>x_residual.
     case projection m of
       Some proj \<Rightarrow>
         bindE (if downsample_flag m
                then (case rev (shape x) of
                        w # h # _ \<Rightarrow> pad_right_bottom x (w mod 2) (h mod 2)
                      | _ \<Rightarrow> Inl (IndexError ''tuple index out of range''))
                else Inr x) (\<lambda>x.
         bindE (sequential_forward ev proj x) (\<lambda>shortcut.
         tensor_add x_residual shortcut))
     | None \<Rightarrow> tensor_add x_residual x)"

text \<open>An \<^verbatim>\<open>nn.Sequential\<close> of Bottleneck modules.\<close>

fun bottlenecks_forward :: "env \<Rightarrow> Bottleneck list \<Rightarrow> tensor \<Rightarrow> error + tensor" where
  "bottlenecks_forward ev [] x = Inr x"
| "bottlenecks_forward ev (m # ms) x =
     (case Bottleneck_forward ev m x of Inl e \<Rightarrow> Inl e | Inr y \<Rightarrow> bottlenecks_forward ev ms y)"

section \<open>FuturePrediction\<close>

record FuturePrediction =
  n_gru_blocks :: nat
  spatial_grus :: "SpatialGRU list"
  res_blocks :: "Bottleneck list list"

text \<open>A Python loop or comprehension that builds one element per index and stops at
  the first exception.\<close>

fun mapE :: "('a \<Rightarrow> error + 'b) \<Rightarrow> 'a list \<Rightarrow> error + 'b list" where
  "mapE f [] = Inr []"
| "mapE f (x # xs) =
     (case f x of
        Inl e \<Rightarrow> Inl e
      | Inr y \<Rightarrow> (case mapE f xs of Inl e \<Rightarrow> Inl e | Inr ys \<Rightarrow> Inr (y # ys)))"

text \<open>\<^verbatim>\<open>FuturePrediction.__init__(in_channels, latent_dim, n_gru_blocks, n_res_layers)\<close>:
  each iteration appends one SpatialGRU and one sequence of Bottlenecks.\<close>

definition FuturePrediction_init ::
  "params \<Rightarrow> nat \<Rightarrow> nat \<Rightarrow> nat \<Rightarrow> nat \<Rightarrow> error + FuturePrediction" where
  "FuturePrediction_init \<theta> in_channels latent_dim n_blocks n_res_layers =
     bindE (mapE (\<lambda>i.
              let gru_in_channels = (if i = 0 then latent_dim else in_channels) in
              bindE (SpatialGRU_init (\<lambda>p. \<theta> (0 # i # p)) gru_in_channels in_channels 0
                       ''bn'' ''relu'') (\<lambda>gru.
              bindE (mapE (\<lambda>j. Bottleneck_init (\<lambda>p. \<theta> (1 # i # j # p))
                                  (Bottleneck_defaults in_channels)) [0..<n_res_layers]) (\<lambda>bs.
              bindE (Sequential_new (map Module bs)) (\<lambda>res.
              Inr (gru, res))))) [0..<n_blocks]) (\<lambda>stages.
     Inr \<lparr>n_gru_blocks = n_blocks, spatial_grus = map fst stages,
          res_blocks = map snd stages\<rparr>)"

text \<open>The second half of the loop body of \<^verbatim>\<open>FuturePrediction.forward\<close>: unpack the
  shape, flatten the time axis into the batch, refine, reshape back.\<close>

definition refine_stage :: "env \<Rightarrow> FuturePrediction \<Rightarrow> nat \<Rightarrow> tensor \<Rightarrow> error + tensor" where
  "refine_stage ev m i x =
     (case shape x of
        [b, n_future, c, h, w] \<Rightarrow>
          if length (res_blocks m) \<le> i then Inl (IndexError ''index out of range'')
          else
          bindE (view x [b * n_future, c, h, w]) (\<lambda>flat.
          bindE (bottlenecks_forward ev (res_blocks m ! i) flat) (\<lambda>x.
          view x [b, n_future, c, h, w]))
      | _ \<Rightarrow> Inl (ValueError ''wrong number of values to unpack''))"

text \<open>The loop of \<^verbatim>\<open>FuturePrediction.forward\<close> over \<^verbatim>\<open>range(self.n_gru_blocks)\<close>,
  carrying \<^verbatim>\<open>x\<close>.\<close>

fun stage_loop ::
  "env \<Rightarrow> FuturePrediction \<Rightarrow> tensor \<Rightarrow> nat list \<Rightarrow> tensor \<Rightarrow> error + tensor" where
  "stage_loop ev m hidden_state [] x = Inr x"
| "stage_loop ev m hidden_state (i # is) x =
     (if length (spatial_grus m) \<le> i then Inl (IndexError ''index out of range'')
      else
      bindE (SpatialGRU_forward ev (spatial_grus m ! i) x (Some hidden_state) None ''bilinear'')
        (\<lambda>x.
      bindE (refine_stage ev m i x) (\<lambda>x.
      stage_loop ev m hidden_state is x)))"

text \<open>\<^verbatim>\<open>FuturePrediction.forward(x, hidden_state)\<close>\<close>

definition FuturePrediction_forward ::
  "env \<Rightarrow> FuturePrediction \<Rightarrow> tensor \<Rightarrow> tensor \<Rightarrow> error + tensor" where
  "FuturePrediction_forward ev m x hidden_state =
     stage_loop ev m hidden_state [0..<n_gru_blocks m] x"


section \<open>Shapes accepted by the modules\<close>

text \<open>
  The structure every SpatialGRU built by the constructor with a positive hidden size
  has: two convolutions and a ConvBlock with \<open>3 \<times> 3\<close> kernels, stride 1 and
  padding 1, from \<open>input_size + hidden_size\<close> to \<open>hidden_size\<close> channels.
\<close>

definition gru_conv_args :: "nat \<Rightarrow> nat \<Rightarrow> bool \<Rightarrow> conv_args" where
  "gru_conv_args i out b = (conv_defaults i out 3)\<lparr>cv_bias := b, cv_padding := 1\<rparr>"

definition norm_for :: "nat \<Rightarrow> layer option \<Rightarrow> bool" where
  "norm_for c l =
     (case l of
        None \<Rightarrow> True
      | Some (BatchNorm2d c' _) \<Rightarrow> c' = c
      | Some (InstanceNorm2d c' _) \<Rightarrow> c' = c
      | _ \<Rightarrow> False)"

definition is_activation :: "layer option \<Rightarrow> bool" where
  "is_activation l =
     (case l of
        None \<Rightarrow> True
      | Some ReLU \<Rightarrow> True
      | Some (LeakyReLU _) \<Rightarrow> True
      | Some ELU \<Rightarrow> True
      | Some Tanh \<Rightarrow> True
      | _ \<Rightarrow> False)"

definition gru_wf :: "SpatialGRU \<Rightarrow> bool" where
  "gru_wf m \<longleftrightarrow>
     0 < hidden_size m \<and>
     (\<exists>wu wr wc.
        conv_update m = Conv2d (gru_conv_args (input_size m + hidden_size m) (hidden_size m) True) wu
      \<and> conv_reset m = Conv2d (gru_conv_args (input_size m + hidden_size m) (hidden_size m) True) wr
      \<and> conv_layer (conv_state_tilde m)
          = Conv2d (gru_conv_args (input_size m + hidden_size m) (hidden_size m) False) wc)
     \<and> norm_for (hidden_size m) (norm_layer (conv_state_tilde m))
     \<and> is_activation (activation_layer (conv_state_tilde m))"

text \<open>
  What the normalisation layer requires of a batch \<open>[b, c, h, w]\<close>: batch
  normalisation in training mode needs more than one value per channel, instance
  normalisation more than one spatial element.
\<close>

definition norm_accepts :: "env \<Rightarrow> layer option \<Rightarrow> nat \<Rightarrow> nat \<Rightarrow> nat \<Rightarrow> bool" where
  "norm_accepts ev l b h w =
     (case l of
        Some (BatchNorm2d _ _) \<Rightarrow> \<not> (training ev \<and> b * h * w = 1)
      | Some (InstanceNorm2d _ _) \<Rightarrow> h * w \<noteq> 1
      | _ \<Rightarrow> True)"


text \<open>
  The structure of a Bottleneck built with default arguments for \<open>c\<close> channels:
  \<open>1 \<times> 1\<close>, \<open>3 \<times> 3\<close> (padding 1) and \<open>1 \<times> 1\<close> convolutions through width
  \<open>c div 2\<close>, each followed by batch normalisation and ReLU, dropout with probability
  0, and the identity shortcut.
\<close>

definition bottleneck_plain :: "nat \<Rightarrow> Bottleneck \<Rightarrow> bool" where
  "bottleneck_plain c m \<longleftrightarrow>
     projection m = None \<and>
     (\<exists>w0 w1 w3 w4 w6 w7 w9.
        layers m =
          [Conv2d ((conv_defaults c (c div 2) 1)\<lparr>cv_bias := False\<rparr>) w0,
           BatchNorm2d (c div 2) w1, ReLU,
           Conv2d ((conv_defaults (c div 2) (c div 2) 3)\<lparr>cv_bias := False, cv_padding := 1\<rparr>) w3,
           BatchNorm2d (c div 2) w4, ReLU,
           Conv2d ((conv_defaults (c div 2) c 1)\<lparr>cv_bias := False\<rparr>) w6,
           BatchNorm2d c w7, ReLU,
           Dropout2d 0 w9])"

text \<open>The structure of a FuturePrediction built by the constructor for \<open>c \<ge> 2\<close>
  channels (so that the bottleneck width \<open>c div 2\<close> is positive) and latent width
  \<open>l\<close>.\<close>

definition fp_wf :: "nat \<Rightarrow> nat \<Rightarrow> FuturePrediction \<Rightarrow> bool" where
  "fp_wf c l m \<longleftrightarrow>
     1 < c \<and>
     length (spatial_grus m) = n_gru_blocks m \<and> length (res_blocks m) = n_gru_blocks m \<and>
     (\<forall>i < n_gru_blocks m.
        gru_wf (spatial_grus m ! i)
      \<and> input_size (spatial_grus m ! i) = (if i = 0 then l else c)
      \<and> hidden_size (spatial_grus m ! i) = c
      \<and> (\<exists>w. norm_layer (conv_state_tilde (spatial_grus m ! i)) = Some (BatchNorm2d c w))
      \<and> (\<forall>bk \<in> set (res_blocks m ! i). bottleneck_plain c bk))"

section \<open>The recurrence as the specification words it\<close>

text \<open>
  The hidden state after step \<open>t\<close> of a run that starts from \<open>h0\<close>: the state after
  step \<open>0\<close> is the cell applied to the first input slice and \<open>h0\<close>, the state after
  step \<open>t + 1\<close> is the cell applied to slice \<open>t + 1\<close> and the state after step \<open>t\<close>.
\<close>

fun hidden_after ::
  "env \<Rightarrow> SpatialGRU \<Rightarrow> tensor \<Rightarrow> tensor option \<Rightarrow> string \<Rightarrow> tensor \<Rightarrow> nat \<Rightarrow> error + tensor"
  where
  "hidden_after ev m x flow mode h0 0 = rnn_step ev m x flow mode 0 h0"
| "hidden_after ev m x flow mode h0 (Suc t) =
     bindE (hidden_after ev m x flow mode h0 t) (rnn_step ev m x flow mode (Suc t))"

text \<open>
  The gates, the candidate state and the blend of one step, as the specification states
  them: \<open>update_gate = sigmoid(conv_update(concat(x_t, h)) + bias_init)\<close>,
  \<open>reset_gate = sigmoid(conv_reset(concat(x_t, h)) + bias_init)\<close>,
  \<open>state_tilde = ConvBlock(concat(x_t, (1 - reset_gate) * h))\<close> and the new hidden state
  \<open>(1 - update_gate) * h + update_gate * state_tilde\<close>.
\<close>

definition update_gate_spec :: "env \<Rightarrow> SpatialGRU \<Rightarrow> tensor \<Rightarrow> tensor \<Rightarrow> error + tensor" where
  "update_gate_spec ev m x_t h =
     bindE (cat_dim1 x_t h) (\<lambda>c.
     bindE (layer_forward ev (conv_update m) c) (\<lambda>u.
     Inr (map_tensor (\<lambda>v. sigmoid_fn ev (v + gru_bias_init m)) u)))"

definition reset_gate_spec :: "env \<Rightarrow> SpatialGRU \<Rightarrow> tensor \<Rightarrow> tensor \<Rightarrow> error + tensor" where
  "reset_gate_spec ev m x_t h =
     bindE (cat_dim1 x_t h) (\<lambda>c.
     bindE (layer_forward ev (conv_reset m) c) (\<lambda>r.
     Inr (map_tensor (\<lambda>v. sigmoid_fn ev (v + gru_bias_init m)) r)))"

definition state_tilde_spec :: "env \<Rightarrow> SpatialGRU \<Rightarrow> tensor \<Rightarrow> tensor \<Rightarrow> error + tensor" where
  "state_tilde_spec ev m x_t h =
     bindE (reset_gate_spec ev m x_t h) (\<lambda>reset_gate.
     bindE (tensor_mul (map_tensor (\<lambda>v. 1 - v) reset_gate) h) (\<lambda>gated.
     bindE (cat_dim1 x_t gated) (ConvBlock_forward ev (conv_state_tilde m))))"

definition blend_spec :: "tensor \<Rightarrow> tensor \<Rightarrow> tensor \<Rightarrow> error + tensor" where
  "blend_spec update_gate h state_tilde =
     bindE (tensor_mul (map_tensor (\<lambda>v. 1 - v) update_gate) h) (\<lambda>keep.
     bindE (tensor_mul update_gate state_tilde) (\<lambda>new.
     tensor_add keep new))"

text \<open>The environment of the reference invocation: the real-valued kernels, modules
  in training mode as constructed, no motion compensation available.\<close>

definition reference_env :: env where
  "reference_env =
     \<lparr>sigmoid_fn = (\<lambda>v. 1 / (1 + exp (- v))), tanh_fn = tanh, expm1_fn = (\<lambda>v. exp v - 1),
      training = True, warp_features = (\<lambda>_ _ _. None)\<rparr>"



text \<open>
  The module \<^verbatim>\<open>Bottleneck.__init__\<close> is written to build for \<^verbatim>\<open>downsample=True\<close> and
  \<open>c\<close> channels, had the projection layers been appended one at a time and passed to
  \<^verbatim>\<open>nn.Sequential\<close> unpacked: the residual path with a stride-2 convolution, and the
  shortcut \<open>2 \<times> 2\<close> max-pooling, \<open>1 \<times> 1\<close> convolution, batch normalisation.
\<close>

definition downsample_bottleneck :: "params \<Rightarrow> nat \<Rightarrow> Bottleneck" where
  "downsample_bottleneck \<theta> c =
     \<lparr>downsample_flag = True,
      layers =
        [Conv2d ((conv_defaults c (c div 2) 1)\<lparr>cv_bias := False\<rparr>) (\<theta> [0, 0]),
         BatchNorm2d (c div 2) (\<theta> [0, 1]), ReLU,
         Conv2d ((conv_defaults (c div 2) (c div 2) 3)
                   \<lparr>cv_bias := False, cv_padding := 1, cv_stride := 2\<rparr>) (\<theta> [0, 3]),
         BatchNorm2d (c div 2) (\<theta> [0, 4]), ReLU,
         Conv2d ((conv_defaults (c div 2) c 1)\<lparr>cv_bias := False\<rparr>) (\<theta> [0, 6]),
         BatchNorm2d c (\<theta> [0, 7]), ReLU,
         Dropout2d 0 (\<theta> [0, 9])],
      projection =
        Some [MaxPool2d 2 2,
              Conv2d ((conv_defaults c c 1)\<lparr>cv_bias := False\<rparr>) (\<theta> [1, 0]),
              BatchNorm2d c (\<theta> [1, 1])]\<rparr>"

text \<open>
  The arguments that pass every check \<^verbatim>\<open>Bottleneck.__init__\<close> makes before it builds
  the shortcut: the two assertions, the library's check that \<^verbatim>\<open>groups\<close> is positive
  and divides the bottleneck width, and its check of the dropout probability.
\<close>

definition bottleneck_args_ok :: "Bottleneck_args \<Rightarrow> bool" where
  "bottleneck_args_ok a \<longleftrightarrow>
     bk_dilation a = 1 \<and> \<not> (bk_upsample a \<and> bk_downsample a)
     \<and> 0 < bk_groups a \<and> (bk_in_channels a div 2) mod bk_groups a = 0
     \<and> 0 \<le> bk_dropout a \<and> bk_dropout a \<le> 1"

text \<open>Whether the constructor takes the branch that builds a projection shortcut.\<close>

definition needs_projection :: "Bottleneck_args \<Rightarrow> bool" where
  "needs_projection a \<longleftrightarrow>
     py_or (bk_out_channels a) (bk_in_channels a) \<noteq> bk_in_channels a
     \<or> bk_upsample a \<or> bk_downsample a"

text \<open>Whether a result is a failed \<^verbatim>\<open>assert\<close>.\<close>

definition raises_assertion :: "error + 'a \<Rightarrow> bool" where
  "raises_assertion r = (case r of Inl (AssertionError _) \<Rightarrow> True | _ \<Rightarrow> False)"

section \<open>Index arithmetic\<close>

lemma numel_Nil [simp]: "numel [] = 1"
  by (simp add: numel_def)

lemma numel_Cons [simp]: "numel (d # ds) = d * numel ds"
  by (simp add: numel_def)

lemma numel_append [simp]: "numel (xs @ ys) = numel xs * numel ys"
  by (simp add: numel_def)

lemma ravel_less: "in_range s idx \<Longrightarrow> ravel s idx < numel s"
proof (induction s idx rule: in_range.induct)
  case (2 d ds i "is")
  then have i: "i < d" and r: "ravel ds is < numel ds" by simp_all
  have "i * numel ds + ravel ds is < i * numel ds + numel ds" using r by simp
  also have "\<dots> = Suc i * numel ds" by simp
  also have "\<dots> \<le> d * numel ds" using i by (intro mult_le_mono1) simp
  finally show ?case by simp
qed simp_all

lemma unravel_in_range: "k < numel s \<Longrightarrow> in_range s (unravel s k)"
proof (induction s arbitrary: k)
  case (Cons d ds)
  then have pos: "0 < numel ds" by (cases "numel ds") simp_all
  have "k div numel ds < d"
    using Cons.prems pos by (simp add: less_mult_imp_div_less mult.commute)
  moreover have "k mod numel ds < numel ds" using pos by simp
  ultimately show ?case using Cons.IH by simp
qed simp

lemma unravel_ravel: "in_range s idx \<Longrightarrow> unravel s (ravel s idx) = idx"
proof (induction s idx rule: in_range.induct)
  case (2 d ds i "is")
  then have r: "ravel ds is < numel ds" by (simp add: ravel_less)
  then show ?case using 2 by simp
qed simp_all

lemma ravel_unravel: "k < numel s \<Longrightarrow> ravel s (unravel s k) = k"
proof (induction s arbitrary: k)
  case (Cons d ds)
  then have pos: "0 < numel ds" by (cases "numel ds") simp_all
  then show ?case using Cons.IH [of "k mod numel ds"] by simp
qed simp

lemma shape_tabulate [simp]: "shape (tabulate s f) = s"
  by (simp add: tabulate_def)

lemma valid_tabulate [simp]: "valid (tabulate s f)"
  by (simp add: tabulate_def valid_def)

lemma tensor_at_tabulate: "in_range s idx \<Longrightarrow> tensor_at (tabulate s f) idx = f idx"
  by (simp add: tensor_at_def tabulate_def ravel_less unravel_ravel)

lemma tabulate_cong:
  "(\<And>idx. in_range s idx \<Longrightarrow> f idx = g idx) \<Longrightarrow> tabulate s f = tabulate s g"
  by (simp add: tabulate_def unravel_in_range)

lemma tabulate_tensor_at: "valid x \<Longrightarrow> tabulate (shape x) (tensor_at x) = x"
proof -
  assume v: "valid x"
  have "map (\<lambda>k. elems x ! ravel (shape x) (unravel (shape x) k)) [0..<numel (shape x)]
      = map (\<lambda>k. elems x ! k) [0..<numel (shape x)]"
    by (simp add: ravel_unravel)
  also have "\<dots> = elems x" using v map_nth [of "elems x"] by (simp add: valid_def)
  finally show ?thesis by (simp add: tabulate_def tensor_at_def)
qed

section \<open>Shapes through the modules\<close>

lemma bindE_Inr [simp]: "bindE (Inr v) f = f v"
  by (simp add: bindE_def)

lemma bindE_Inl [simp]: "bindE (Inl e) f = Inl e"
  by (simp add: bindE_def)

lemma bindE_eq_Inr: "bindE r f = Inr y \<longleftrightarrow> (\<exists>v. r = Inr v \<and> f v = Inr y)"
  by (cases r) simp_all

lemma shape_map_tensor [simp]: "shape (map_tensor f x) = shape x"
  by (simp add: map_tensor_def)

lemma elems_map_tensor [simp]: "elems (map_tensor f x) = map f (elems x)"
  by (simp add: map_tensor_def)

lemma valid_map_tensor [simp]: "valid (map_tensor f x) = valid x"
  by (simp add: valid_def)

lemma shape_zeros [simp]: "shape (zeros s) = s"
  by (simp add: zeros_def)

lemma valid_zeros [simp]: "valid (zeros s)"
  by (simp add: zeros_def valid_def)

lemma shape_produced [simp]: "shape (produced wt x s) = s"
  by (simp add: produced_def)

lemma valid_produced [simp]: "valid (produced wt x s)"
  by (simp add: produced_def valid_def)

lemma select_dim1_ok:
  "shape x = b # n # rest \<Longrightarrow> t < n \<Longrightarrow>
   \<exists>y. select_dim1 x t = Inr y \<and> shape y = b # rest \<and> valid y"
  by (simp add: select_dim1_def)

lemma cat_dim1_ok:
  "shape a = [n, ca, h, w] \<Longrightarrow> shape b = [n, cb, h, w] \<Longrightarrow>
   \<exists>y. cat_dim1 a b = Inr y \<and> shape y = [n, ca + cb, h, w] \<and> valid y"
  by (simp add: cat_dim1_def)

lemma binop_same:
  "shape a = shape b \<Longrightarrow> binop f a b = Inr \<lparr>shape = shape a, elems = map2 f (elems a) (elems b)\<rparr>"
  by (simp add: binop_def)

lemma conv2d_same:
  assumes "shape x = [n, c, h, w]" "c = cv_in a" "cv_stride a = 1" "cv_dilation a = 1"
    "cv_kernel a = 2 * cv_padding a + 1" "0 < h" "0 < w"
    "0 < c" "0 < cv_out a" "cv_groups a = 1"
  shows "conv2d_forward a wt x = Inr (produced wt x [n, cv_out a, h, w])"
  using assms by (simp add: conv2d_forward_def split_nchw_def conv_out_size_def)

lemma gru_conv_same:
  assumes "shape x = [n, i, h, w]" "0 < i" "0 < out" "0 < h" "0 < w"
  shows "conv2d_forward (gru_conv_args i out bias) wt x = Inr (produced wt x [n, out, h, w])"
  using assms
  by (simp add: conv2d_forward_def split_nchw_def conv_out_size_def gru_conv_args_def
      conv_defaults_def)

lemma batch_norm2d_ok:
  assumes "shape x = [n, c, h, w]" "\<not> (training ev \<and> n * h * w = 1)"
  shows "batch_norm2d_forward ev c wt x = Inr (produced wt x [n, c, h, w])"
  using assms by (simp add: batch_norm2d_forward_def)


lemma norm_layer_ok:
  assumes "norm_for c l" "norm_accepts ev l n h w" "shape x = [n, c, h, w]"
  shows "\<exists>y. (case l of Some nl \<Rightarrow> layer_forward ev nl x | None \<Rightarrow> Inr x) = Inr y
             \<and> shape y = [n, c, h, w] \<and> (valid x \<longrightarrow> valid y)"
proof (cases l)
  case None
  then show ?thesis using assms by simp
next
  case (Some nl)
  then show ?thesis
    using assms
    by (cases nl)
      (auto simp: norm_for_def norm_accepts_def batch_norm2d_forward_def
         instance_norm2d_forward_def split_nchw_def)
qed

lemma activation_layer_ok:
  assumes "is_activation l"
  shows "\<exists>y. (case l of Some act \<Rightarrow> layer_forward ev act x | None \<Rightarrow> Inr x) = Inr y
             \<and> shape y = shape x \<and> (valid x \<longrightarrow> valid y)"
proof (cases l)
  case None
  then show ?thesis by simp
next
  case (Some act)
  then show ?thesis using assms by (cases act) (auto simp: is_activation_def)
qed

lemma ConvBlock_forward_ok:
  assumes conv: "conv_layer cb = Conv2d (gru_conv_args i out bias) wc"
    and nrm: "norm_for out (norm_layer cb)"
    and act: "is_activation (activation_layer cb)"
    and acc: "norm_accepts ev (norm_layer cb) n h w"
    and sh: "shape x = [n, i, h, w]" and pos: "0 < h" "0 < w" and ch: "0 < i" "0 < out"
  shows "\<exists>y. ConvBlock_forward ev cb x = Inr y \<and> shape y = [n, out, h, w] \<and> valid y"
proof -
  have c: "layer_forward ev (conv_layer cb) x = Inr (produced wc x [n, out, h, w])"
    using gru_conv_same [OF sh ch pos] conv by simp
  obtain y1 where y1: "(case norm_layer cb of Some nl \<Rightarrow> layer_forward ev nl (produced wc x [n, out, h, w])
                        | None \<Rightarrow> Inr (produced wc x [n, out, h, w])) = Inr y1"
    and s1: "shape y1 = [n, out, h, w]" and v1: "valid y1"
    using norm_layer_ok [OF nrm acc, where x = "produced wc x [n, out, h, w]"] by auto
  obtain y2 where y2: "(case activation_layer cb of Some a \<Rightarrow> layer_forward ev a y1
                        | None \<Rightarrow> Inr y1) = Inr y2"
    and s2: "shape y2 = shape y1" and v2: "valid y2"
    using activation_layer_ok [OF act, where ev = ev and x = y1] v1 by auto
  show ?thesis
    using c y1 y2 s1 s2 v2 by (simp add: ConvBlock_forward_def)
qed

lemma binop_ok:
  assumes "shape a = shape b"
  shows "\<exists>y. binop f a b = Inr y \<and> shape y = shape a
           \<and> elems y = map2 f (elems a) (elems b) \<and> (valid a \<and> valid b \<longrightarrow> valid y)"
  using assms by (simp add: binop_def valid_def)

lemma gru_cell_ok:
  assumes wf: "gru_wf m"
    and sx: "shape x = [b, input_size m, h, w]"
    and ss: "shape st = [b, hidden_size m, h, w]"
    and pos: "0 < h" "0 < w"
    and acc: "norm_accepts ev (norm_layer (conv_state_tilde m)) b h w"
  shows "\<exists>y. gru_cell ev m x st = Inr y \<and> shape y = [b, hidden_size m, h, w]
           \<and> (valid st \<longrightarrow> valid y)"
proof -
  let ?i = "input_size m" and ?hd = "hidden_size m"
  let ?S = "[b, ?hd, h, w]"
  from wf obtain wu wr wc where
    cu: "conv_update m = Conv2d (gru_conv_args (?i + ?hd) ?hd True) wu" and
    cr: "conv_reset m = Conv2d (gru_conv_args (?i + ?hd) ?hd True) wr" and
    cc: "conv_layer (conv_state_tilde m) = Conv2d (gru_conv_args (?i + ?hd) ?hd False) wc" and
    nf: "norm_for ?hd (norm_layer (conv_state_tilde m))" and
    af: "is_activation (activation_layer (conv_state_tilde m))" and
    hd: "0 < ?hd"
    by (auto simp: gru_wf_def)
  have ch: "0 < ?i + ?hd" using hd by simp
  obtain xs where xs: "cat_dim1 x st = Inr xs" and sxs: "shape xs = [b, ?i + ?hd, h, w]"
    using cat_dim1_ok [OF sx ss] by auto
  have u: "layer_forward ev (conv_update m) xs = Inr (produced wu xs ?S)"
    using gru_conv_same [OF sxs ch hd pos] cu by simp
  have r: "layer_forward ev (conv_reset m) xs = Inr (produced wr xs ?S)"
    using gru_conv_same [OF sxs ch hd pos] cr by simp
  define ug where "ug = map_tensor (sigmoid_fn ev)
                          (map_tensor (\<lambda>v. v + gru_bias_init m) (produced wu xs ?S))"
  define rg where "rg = map_tensor (sigmoid_fn ev)
                          (map_tensor (\<lambda>v. v + gru_bias_init m) (produced wr xs ?S))"
  have sug: "shape ug = ?S" "valid ug" and srg: "shape rg = ?S" "valid rg"
    by (simp_all add: ug_def rg_def)
  obtain g where g: "tensor_mul (map_tensor (\<lambda>v. 1 - v) rg) st = Inr g" and sg: "shape g = ?S"
    using binop_ok [of "map_tensor (\<lambda>v. 1 - v) rg" st "(*)"] srg ss
    by (auto simp: tensor_mul_def)
  obtain xg where xg: "cat_dim1 x g = Inr xg" and sxg: "shape xg = [b, ?i + ?hd, h, w]"
    using cat_dim1_ok [OF sx sg] by auto
  obtain tl where tl: "ConvBlock_forward ev (conv_state_tilde m) xg = Inr tl"
    and stl: "shape tl = ?S" and vtl: "valid tl"
    using ConvBlock_forward_ok [OF cc nf af acc sxg pos ch hd] by auto
  obtain k where k: "tensor_mul (map_tensor (\<lambda>v. 1 - v) ug) st = Inr k" and sk: "shape k = ?S"
    and vk: "valid st \<longrightarrow> valid k"
    using binop_ok [of "map_tensor (\<lambda>v. 1 - v) ug" st "(*)"] sug ss
    by (auto simp: tensor_mul_def)
  obtain nw where nw: "tensor_mul ug tl = Inr nw" and sn: "shape nw = ?S" and vn: "valid nw"
    using binop_ok [of ug tl "(*)"] sug stl vtl by (auto simp: tensor_mul_def)
  obtain y where y: "tensor_add k nw = Inr y" and sy: "shape y = ?S"
    and vy: "valid k \<and> valid nw \<longrightarrow> valid y"
    using binop_ok [of k nw "(+)"] sk sn by (auto simp: tensor_add_def)
  have "gru_cell ev m x st = Inr y"
    using xs u r g xg tl k nw y by (simp add: gru_cell_def Let_def ug_def rg_def)
  then show ?thesis using sy vy vk vn by auto
qed


lemma select_stack:
  assumes ne: "ts \<noteq> []"
    and sh: "\<forall>t \<in> set ts. shape t = n # rest \<and> valid t"
    and k: "k < length ts"
  shows "\<exists>y. stack_dim1 ts = Inr y \<and> shape y = n # length ts # rest
           \<and> select_dim1 y k = Inr (ts ! k)"
proof -
  obtain t0 tl where ts: "ts = t0 # tl" using ne by (cases ts) auto
  let ?f = "\<lambda>idx. case idx of i # t # r \<Rightarrow> tensor_at (ts ! t) (i # r) | _ \<Rightarrow> 0"
  let ?y = "tabulate (n # length ts # rest) ?f"
  have st: "stack_dim1 ts = Inr ?y"
    using sh ts by (auto simp: stack_dim1_def)
  have tk: "shape (ts ! k) = n # rest" "valid (ts ! k)" using sh k by auto
  have "tabulate (n # rest) (\<lambda>idx. case idx of i # r \<Rightarrow> tensor_at ?y (i # k # r) | [] \<Rightarrow> 0)
      = tabulate (n # rest) (tensor_at (ts ! k))"
  proof (rule tabulate_cong)
    fix idx assume ir: "in_range (n # rest) idx"
    then obtain i r where idx: "idx = i # r" and i: "i < n" and r: "in_range rest r"
      by (cases idx) auto
    have "in_range (n # length ts # rest) (i # k # r)" using i k r by simp
    then have "tensor_at ?y (i # k # r) = tensor_at (ts ! k) (i # r)"
      by (simp add: tensor_at_tabulate)
    then show "(case idx of i # r \<Rightarrow> tensor_at ?y (i # k # r) | [] \<Rightarrow> 0) = tensor_at (ts ! k) idx"
      using idx by simp
  qed
  also have "\<dots> = ts ! k" using tabulate_tensor_at [of "ts ! k"] tk by simp
  finally have "select_dim1 ?y k = Inr (ts ! k)"
    using k by (simp add: select_dim1_def)
  then show ?thesis using st by simp
qed

lemma rnn_loop_invariant:
  assumes "rnn_loop ev m x flow mode [a..<T] st out = Inr res"
    and "a \<le> T" and "length out = a"
    and "\<forall>k<a. hidden_after ev m x flow mode h0 k = Inr (out ! k)"
    and "if a = 0 then st = h0 else st = out ! (a - 1)"
  shows "length res = T \<and> (\<forall>k<T. hidden_after ev m x flow mode h0 k = Inr (res ! k))"
  using assms
proof (induction "T - a" arbitrary: a st out)
  case 0
  then show ?case by simp
next
  case (Suc d)
  then have lt: "a < T" by simp
  then have upt: "[a..<T] = a # [Suc a..<T]" by (simp add: upt_rec)
  from Suc.prems(1) obtain st' where
    step: "rnn_step ev m x flow mode a st = Inr st'" and
    rest: "rnn_loop ev m x flow mode [Suc a..<T] st' (out @ [st']) = Inr res"
    unfolding upt by (auto simp: bindE_eq_Inr)
  have ha: "hidden_after ev m x flow mode h0 a = Inr st'"
  proof (cases a)
    case 0
    then show ?thesis using step Suc.prems(5) by simp
  next
    case (Suc a')
    then have "hidden_after ev m x flow mode h0 a' = Inr st"
      using Suc.prems(4,5) by simp
    then show ?thesis using step Suc by simp
  qed
  have inv: "\<forall>k<Suc a. hidden_after ev m x flow mode h0 k = Inr ((out @ [st']) ! k)"
    using Suc.prems(3,4) ha by (auto simp: nth_append less_Suc_eq)
  show ?case
  proof (rule Suc.hyps(1) [OF _ rest])
    show "d = T - Suc a" using Suc.hyps(2) by simp
    show "Suc a \<le> T" using lt by simp
    show "length (out @ [st']) = Suc a" using Suc.prems(3) by simp
    show "\<forall>k<Suc a. hidden_after ev m x flow mode h0 k = Inr ((out @ [st']) ! k)" by (rule inv)
    show "if Suc a = 0 then st' = h0 else st' = (out @ [st']) ! (Suc a - 1)"
      using Suc.prems(3) by (simp add: nth_append)
  qed
qed


lemma rnn_step_ok:
  assumes wf: "gru_wf m"
    and sx: "shape x = [b, T, input_size m, h, w]" and t: "t < T"
    and ss: "shape st = [b, hidden_size m, h, w]"
    and pos: "0 < h" "0 < w"
    and acc: "norm_accepts ev (norm_layer (conv_state_tilde m)) b h w"
  shows "\<exists>y. rnn_step ev m x None mode t st = Inr y \<and> shape y = [b, hidden_size m, h, w]
           \<and> (valid st \<longrightarrow> valid y)"
proof -
  obtain x_t where xt: "select_dim1 x t = Inr x_t" and sxt: "shape x_t = [b, input_size m, h, w]"
    using select_dim1_ok [OF sx t] by auto
  show ?thesis
    using gru_cell_ok [OF wf sxt ss pos acc] xt
    by (simp add: rnn_step_def warp_step_def)
qed

lemma rnn_loop_ok:
  assumes wf: "gru_wf m"
    and sx: "shape x = [b, T, input_size m, h, w]"
    and pos: "0 < h" "0 < w"
    and acc: "norm_accepts ev (norm_layer (conv_state_tilde m)) b h w"
    and a: "a \<le> T"
    and ss: "shape st = [b, hidden_size m, h, w]"
    and so: "\<forall>r \<in> set out. shape r = [b, hidden_size m, h, w]"
  shows "\<exists>res. rnn_loop ev m x None mode [a..<T] st out = Inr res
           \<and> length res = length out + (T - a)
           \<and> (\<forall>r \<in> set res. shape r = [b, hidden_size m, h, w])
           \<and> (valid st \<and> (\<forall>r \<in> set out. valid r) \<longrightarrow> (\<forall>r \<in> set res. valid r))"
  using a ss so
proof (induction "T - a" arbitrary: a st out)
  case 0
  then show ?case by simp
next
  case (Suc d)
  then have lt: "a < T" by simp
  then have upt: "[a..<T] = a # [Suc a..<T]" by (simp add: upt_rec)
  obtain st' where step: "rnn_step ev m x None mode a st = Inr st'"
    and ss': "shape st' = [b, hidden_size m, h, w]" and vs': "valid st \<longrightarrow> valid st'"
    using rnn_step_ok [OF wf sx lt Suc.prems(2) pos acc] by auto
  have "\<exists>res. rnn_loop ev m x None mode [Suc a..<T] st' (out @ [st']) = Inr res
           \<and> length res = length (out @ [st']) + (T - Suc a)
           \<and> (\<forall>r \<in> set res. shape r = [b, hidden_size m, h, w])
           \<and> (valid st' \<and> (\<forall>r \<in> set (out @ [st']). valid r) \<longrightarrow> (\<forall>r \<in> set res. valid r))"
  proof (rule Suc.hyps(1))
    show "d = T - Suc a" using Suc.hyps(2) by simp
    show "Suc a \<le> T" using lt by simp
    show "shape st' = [b, hidden_size m, h, w]" by (rule ss')
    show "\<forall>r \<in> set (out @ [st']). shape r = [b, hidden_size m, h, w]"
      using Suc.prems(3) ss' by simp
  qed
  then obtain res where
    r1: "rnn_loop ev m x None mode [Suc a..<T] st' (out @ [st']) = Inr res" and
    r2: "length res = length (out @ [st']) + (T - Suc a)" and
    r3: "\<forall>r \<in> set res. shape r = [b, hidden_size m, h, w]" and
    r4: "valid st' \<and> (\<forall>r \<in> set (out @ [st']). valid r) \<longrightarrow> (\<forall>r \<in> set res. valid r)"
    by blast
  have "rnn_loop ev m x None mode [a..<T] st out = Inr res"
    unfolding upt using step r1 by simp
  moreover have "length res = length out + (T - a)"
  proof -
    have "length res = Suc (length out) + (T - Suc a)" using r2 by simp
    also have "\<dots> = length out + (T - a)" using lt by arith
    finally show ?thesis .
  qed
  moreover have "valid st \<and> (\<forall>r \<in> set out. valid r) \<longrightarrow> (\<forall>r \<in> set res. valid r)"
  proof
    assume v: "valid st \<and> (\<forall>r \<in> set out. valid r)"
    then have "valid st'" using vs' by blast
    moreover have "\<forall>r \<in> set (out @ [st']). valid r" using v \<open>valid st'\<close> by auto
    ultimately show "\<forall>r \<in> set res. valid r" using r4 by blast
  qed
  ultimately show ?case using r3 by blast
qed

lemma SpatialGRU_forward_shape:
  assumes wf: "gru_wf m"
    and sx: "shape x = [b, T, input_size m, h, w]"
    and T: "0 < T" and pos: "0 < h" "0 < w"
    and acc: "norm_accepts ev (norm_layer (conv_state_tilde m)) b h w"
    and h0: "h0 = (case state of None \<Rightarrow> zeros [b, hidden_size m, h, w] | Some s \<Rightarrow> s)"
    and sh: "shape h0 = [b, hidden_size m, h, w]"
  shows "\<exists>y. SpatialGRU_forward ev m x state None mode = Inr y
           \<and> shape y = [b, T, hidden_size m, h, w]
           \<and> (valid h0 \<longrightarrow> (\<forall>t<T. select_dim1 y t = hidden_after ev m x None mode h0 t))"
proof -
  let ?S = "[b, hidden_size m, h, w]"
  obtain res where
    r1: "rnn_loop ev m x None mode [0..<T] h0 [] = Inr res" and
    r2: "length res = T" and
    r3: "\<forall>r \<in> set res. shape r = ?S" and
    r4: "valid h0 \<longrightarrow> (\<forall>r \<in> set res. valid r)"
    using rnn_loop_ok [OF wf sx pos acc, of 0 h0 "[]" mode] sh by auto
  have ne: "res \<noteq> []" using r2 T by auto
  have fw: "SpatialGRU_forward ev m x state None mode = stack_dim1 res"
    using sx r1 h0 by (simp add: SpatialGRU_forward_def Let_def)
  have hid: "\<forall>k<T. hidden_after ev m x None mode h0 k = Inr (res ! k)"
    using rnn_loop_invariant [OF r1, of h0] by simp
  obtain t0 tl where res: "res = t0 # tl" using ne by (cases res) auto
  define y where "y = tabulate (b # length res # [hidden_size m, h, w])
      (\<lambda>idx. case idx of i # t # r \<Rightarrow> tensor_at (res ! t) (i # r) | _ \<Rightarrow> 0)"
  have st: "stack_dim1 res = Inr y"
    using r3 res unfolding y_def by (auto simp: stack_dim1_def)
  have sy: "shape y = [b, T, hidden_size m, h, w]"
    by (simp add: y_def r2)
  have sel: "select_dim1 y t = hidden_after ev m x None mode h0 t" if v: "valid h0" and t: "t < T" for t
  proof -
    have "\<forall>r \<in> set res. shape r = b # [hidden_size m, h, w] \<and> valid r" using r3 r4 v by simp
    from select_stack [OF ne this, of t] t r2 st
    have "select_dim1 y t = Inr (res ! t)" by simp
    then show ?thesis using hid t by simp
  qed
  show ?thesis
  proof (intro exI conjI impI allI)
    show "SpatialGRU_forward ev m x state None mode = Inr y" using fw st by simp
    show "shape y = [b, T, hidden_size m, h, w]" by (rule sy)
    show "select_dim1 y t = hidden_after ev m x None mode h0 t" if "valid h0" "t < T" for t
      using sel that by blast
  qed
qed


lemma Bottleneck_forward_plain:
  assumes pl: "bottleneck_plain c m" and c: "1 < c"
    and sx: "shape x = [n, c, h, w]" and pos: "0 < h" "0 < w"
    and tr: "\<not> (training ev \<and> n * h * w = 1)"
  shows "\<exists>y. Bottleneck_forward ev m x = Inr y \<and> shape y = [n, c, h, w]"
proof -
  from pl obtain w0 w1 w3 w4 w6 w7 w9 where
    pr: "projection m = None" and
    ly: "layers m =
          [Conv2d ((conv_defaults c (c div 2) 1)\<lparr>cv_bias := False\<rparr>) w0,
           BatchNorm2d (c div 2) w1, ReLU,
           Conv2d ((conv_defaults (c div 2) (c div 2) 3)\<lparr>cv_bias := False, cv_padding := 1\<rparr>) w3,
           BatchNorm2d (c div 2) w4, ReLU,
           Conv2d ((conv_defaults (c div 2) c 1)\<lparr>cv_bias := False\<rparr>) w6,
           BatchNorm2d c w7, ReLU,
           Dropout2d 0 w9]"
    by (auto simp: bottleneck_plain_def)
  have c2: "0 < c div 2" using c by simp
  have conv: "\<And>a wt z ci. shape z = [n, ci, h, w] \<Longrightarrow> ci = cv_in a \<Longrightarrow> cv_stride a = 1 \<Longrightarrow>
      cv_dilation a = 1 \<Longrightarrow> cv_kernel a = 2 * cv_padding a + 1 \<Longrightarrow>
      0 < ci \<Longrightarrow> 0 < cv_out a \<Longrightarrow> cv_groups a = 1 \<Longrightarrow>
      conv2d_forward a wt z = Inr (produced wt z [n, cv_out a, h, w])"
    using conv2d_same pos by blast
  have bn: "\<And>wt z ci. shape z = [n, ci, h, w] \<Longrightarrow>
      batch_norm2d_forward ev ci wt z = Inr (produced wt z [n, ci, h, w])"
    using batch_norm2d_ok tr by blast
  obtain r where r: "sequential_forward ev (layers m) x = Inr r" and sr: "shape r = [n, c, h, w]"
    using sx c c2 by (simp add: ly conv bn conv_defaults_def dropout2d_forward_def)
  show ?thesis
    using r sr sx pr by (simp add: Bottleneck_forward_def tensor_add_def binop_def)
qed

lemma bottlenecks_forward_plain:
  assumes "\<forall>bk \<in> set ms. bottleneck_plain c bk"
    and "shape x = [n, c, h, w]" and "0 < h" "0 < w"
    and "\<not> (training ev \<and> n * h * w = 1)" and "1 < c"
  shows "\<exists>y. bottlenecks_forward ev ms x = Inr y \<and> shape y = [n, c, h, w]"
  using assms
proof (induction ms arbitrary: x)
  case Nil
  then show ?case by simp
next
  case (Cons bk ms)
  have "bottleneck_plain c bk" using Cons.prems(1) by simp
  from Bottleneck_forward_plain [OF this Cons.prems(6,2,3,4,5)]
  obtain y where y: "Bottleneck_forward ev bk x = Inr y" and sy: "shape y = [n, c, h, w]"
    by blast
  show ?case using Cons.IH [of y] Cons.prems y sy by simp
qed


lemma mapE_Inr:
  "mapE f xs = Inr ys \<Longrightarrow> length ys = length xs \<and> (\<forall>i<length xs. f (xs ! i) = Inr (ys ! i))"
proof (induction xs arbitrary: ys)
  case Nil
  then show ?case by simp
next
  case (Cons x xs)
  then obtain y ys' where y: "f x = Inr y" and ys': "mapE f xs = Inr ys'" and ys: "ys = y # ys'"
    by (auto split: sum.splits)
  show ?case using Cons.IH [OF ys'] y ys by (auto simp: nth_Cons split: nat.splits)
qed

lemma mapE_total:
  "(\<And>x. x \<in> set xs \<Longrightarrow> \<exists>y. f x = Inr y) \<Longrightarrow> \<exists>ys. mapE f xs = Inr ys"
proof (induction xs)
  case Nil
  then show ?case by simp
next
  case (Cons x xs)
  then obtain y ys where "f x = Inr y" "mapE f xs = Inr ys" by (meson list.set_intros)
  then show ?case by simp
qed

lemma Sequential_new_modules [simp]: "Sequential_new (map Module ms) = Inr ms"
  by (induction ms) simp_all

lemma SpatialGRU_init_bn_relu:
  "0 < c \<Longrightarrow> \<exists>m. SpatialGRU_init \<theta> i c bias ''bn'' ''relu'' = Inr m \<and> gru_wf m \<and> input_size m = i
      \<and> hidden_size m = c \<and> gru_bias_init m = bias
      \<and> (\<exists>w. norm_layer (conv_state_tilde m) = Some (BatchNorm2d c w))"
  by (simp add: SpatialGRU_init_def ConvBlock_init_def Conv2d_new_def check_groups_def
      conv_defaults_def ConvBlock_defaults_def py_or_def gru_wf_def gru_conv_args_def
      norm_for_def is_activation_def Let_def)

lemma Bottleneck_init_defaults:
  "\<exists>m. Bottleneck_init \<theta> (Bottleneck_defaults c) = Inr m \<and> bottleneck_plain c m"
  by (simp add: Bottleneck_init_def Bottleneck_defaults_def Conv2d_new_def check_groups_def
      Dropout2d_new_def conv_defaults_def py_or_def bottleneck_plain_def Let_def)


lemma FuturePrediction_init_ok:
  assumes c2: "1 < c"
  shows "\<exists>m. FuturePrediction_init \<theta> c l n r = Inr m \<and> n_gru_blocks m = n \<and> fp_wf c l m"
proof -
  let ?f = "\<lambda>i. let gru_in_channels = (if i = 0 then l else c) in
              bindE (SpatialGRU_init (\<lambda>p. \<theta> (0 # i # p)) gru_in_channels c 0
                       ''bn'' ''relu'') (\<lambda>gru.
              bindE (mapE (\<lambda>j. Bottleneck_init (\<lambda>p. \<theta> (1 # i # j # p))
                                  (Bottleneck_defaults c)) [0..<r]) (\<lambda>bs.
              bindE (Sequential_new (map Module bs)) (\<lambda>res.
              Inr (gru, res))))"
  have c: "0 < c" using c2 by simp
  have one: "\<exists>g bs. ?f i = Inr (g, bs) \<and> gru_wf g \<and> input_size g = (if i = 0 then l else c)
      \<and> hidden_size g = c \<and> (\<exists>w. norm_layer (conv_state_tilde g) = Some (BatchNorm2d c w))
      \<and> (\<forall>bk \<in> set bs. bottleneck_plain c bk)" for i
  proof -
    obtain g where g: "SpatialGRU_init (\<lambda>p. \<theta> (0 # i # p)) (if i = 0 then l else c) c 0
                         ''bn'' ''relu'' = Inr g"
      and gp: "gru_wf g" "input_size g = (if i = 0 then l else c)" "hidden_size g = c"
        "\<exists>w. norm_layer (conv_state_tilde g) = Some (BatchNorm2d c w)"
      using SpatialGRU_init_bn_relu [OF c, of "\<lambda>p. \<theta> (0 # i # p)" "if i = 0 then l else c" 0]
      by blast
    let ?b = "\<lambda>j. Bottleneck_init (\<lambda>p. \<theta> (1 # i # j # p)) (Bottleneck_defaults c)"
    obtain bs where bs: "mapE ?b [0..<r] = Inr bs"
      using mapE_total [of "[0..<r]" ?b] Bottleneck_init_defaults by blast
    have "\<forall>bk \<in> set bs. bottleneck_plain c bk"
    proof
      fix bk assume "bk \<in> set bs"
      then obtain j where j: "j < length bs" and bk: "bk = bs ! j" by (auto simp: in_set_conv_nth)
      have "?b ([0..<r] ! j) = Inr (bs ! j)" using mapE_Inr [OF bs] j by simp
      then show "bottleneck_plain c bk"
        using Bottleneck_init_defaults [of "\<lambda>p. \<theta> (1 # i # ([0..<r] ! j) # p)" c] bk by auto
    qed
    then show ?thesis using g gp bs by (simp add: Let_def)
  qed
  obtain stages where st: "mapE ?f [0..<n] = Inr stages"
    using mapE_total [of "[0..<n]" ?f] one by blast
  have len: "length stages = n" and nth: "\<forall>i<n. ?f i = Inr (stages ! i)"
    using mapE_Inr [OF st] by auto
  let ?m = "\<lparr>n_gru_blocks = n, spatial_grus = map fst stages, res_blocks = map snd stages\<rparr>"
  have init: "FuturePrediction_init \<theta> c l n r = Inr ?m"
    using st by (simp add: FuturePrediction_init_def)
  have "fp_wf c l ?m"
    unfolding fp_wf_def
  proof (intro conjI allI impI)
    fix i assume "i < n_gru_blocks ?m"
    then have i: "i < n" by simp
    obtain g bs where gb: "?f i = Inr (g, bs)" and gp: "gru_wf g"
      "input_size g = (if i = 0 then l else c)" "hidden_size g = c"
      "\<exists>w. norm_layer (conv_state_tilde g) = Some (BatchNorm2d c w)"
      "\<forall>bk \<in> set bs. bottleneck_plain c bk"
      using one [of i] by blast
    have si: "stages ! i = (g, bs)" using nth i gb by simp
    show "gru_wf (spatial_grus ?m ! i)" using si gp i len by simp
    show "input_size (spatial_grus ?m ! i) = (if i = 0 then l else c)" using si gp i len by simp
    show "hidden_size (spatial_grus ?m ! i) = c" using si gp i len by simp
    show "\<exists>w. norm_layer (conv_state_tilde (spatial_grus ?m ! i)) = Some (BatchNorm2d c w)"
      using si gp i len by simp
    show "\<forall>bk \<in> set (res_blocks ?m ! i). bottleneck_plain c bk" using si gp i len by simp
  qed (use c2 len in simp_all)
  then show ?thesis using init by auto
qed


lemma view_ok: "numel s = numel (shape x) \<Longrightarrow> \<exists>y. view x s = Inr y \<and> shape y = s"
  by (simp add: view_def)

lemma batch_one: "(b::nat) * T * h * w = 1 \<Longrightarrow> b * h * w = 1"
  by simp

lemma stage_ok:
  assumes wf: "fp_wf c l m" and i: "i < n_gru_blocks m"
    and sx: "shape x = [b, T, if i = 0 then l else c, h, w]"
    and sh: "shape hs = [b, c, h, w]"
    and T: "0 < T" and pos: "0 < h" "0 < w"
    and tr: "\<not> (training ev \<and> b * h * w = 1)"
    and rest: "\<And>y. shape y = [b, T, c, h, w] \<Longrightarrow> \<exists>z. stage_loop ev m hs is y = Inr z \<and> P z"
  shows "\<exists>z. stage_loop ev m hs (i # is) x = Inr z \<and> P z"
proof -
  let ?g = "spatial_grus m ! i"
  from wf i have g: "gru_wf ?g" "input_size ?g = (if i = 0 then l else c)" "hidden_size ?g = c"
    and nb: "\<exists>w. norm_layer (conv_state_tilde ?g) = Some (BatchNorm2d c w)"
    and pl: "\<forall>bk \<in> set (res_blocks m ! i). bottleneck_plain c bk"
    and len: "length (spatial_grus m) = n_gru_blocks m" "length (res_blocks m) = n_gru_blocks m"
    and c2: "1 < c"
    by (auto simp: fp_wf_def)
  have acc: "norm_accepts ev (norm_layer (conv_state_tilde ?g)) b h w"
    using nb tr by (auto simp: norm_accepts_def)
  obtain y1 where y1: "SpatialGRU_forward ev ?g x (Some hs) None ''bilinear'' = Inr y1"
    and s1: "shape y1 = [b, T, c, h, w]"
    using SpatialGRU_forward_shape [of ?g x b T h w ev hs "Some hs" "''bilinear''"]
      g sx sh T pos acc by auto
  obtain fl where fl: "view y1 [b * T, c, h, w] = Inr fl" and sfl: "shape fl = [b * T, c, h, w]"
    using view_ok [of "[b * T, c, h, w]" y1] s1 by (auto simp: mult.assoc)
  have tr': "\<not> (training ev \<and> b * T * h * w = 1)" using tr batch_one by blast
  obtain y2 where y2: "bottlenecks_forward ev (res_blocks m ! i) fl = Inr y2"
    and s2: "shape y2 = [b * T, c, h, w]"
    using bottlenecks_forward_plain [OF pl sfl pos tr' c2] by auto
  obtain y3 where y3: "view y2 [b, T, c, h, w] = Inr y3" and s3: "shape y3 = [b, T, c, h, w]"
    using view_ok [of "[b, T, c, h, w]" y2] s2 by (auto simp: mult.assoc)
  obtain z where z: "stage_loop ev m hs is y3 = Inr z" and Pz: "P z"
    using rest [OF s3] by blast
  have "refine_stage ev m i y1 = Inr y3"
    using i len s1 fl y2 y3 by (simp add: refine_stage_def)
  then have "stage_loop ev m hs (i # is) x = Inr z"
    using i len y1 z by simp
  then show ?thesis using Pz by blast
qed

lemma stage_loop_ok:
  assumes wf: "fp_wf c l m"
    and sh: "shape hs = [b, c, h, w]"
    and T: "0 < T" and pos: "0 < h" "0 < w"
    and tr: "\<not> (training ev \<and> b * h * w = 1)"
    and "\<forall>i \<in> set is. 0 < i \<and> i < n_gru_blocks m"
    and "shape x = [b, T, c, h, w]"
  shows "\<exists>z. stage_loop ev m hs is x = Inr z \<and> shape z = [b, T, c, h, w]"
  using assms(7,8)
proof (induction "is" arbitrary: x)
  case Nil
  then show ?case by simp
next
  case (Cons i "is")
  then have i: "i < n_gru_blocks m" "0 < i" by auto
  show ?case
  proof (rule stage_ok [OF wf i(1) _ sh T pos tr])
    show "shape x = [b, T, if i = 0 then l else c, h, w]" using Cons.prems i by simp
    show "\<exists>z. stage_loop ev m hs is y = Inr z \<and> shape z = [b, T, c, h, w]"
      if "shape y = [b, T, c, h, w]" for y
      using Cons.IH [OF _ that] Cons.prems by simp
  qed
qed

lemma FuturePrediction_forward_shape:
  assumes wf: "fp_wf c l m" and n: "0 < n_gru_blocks m"
    and sx: "shape x = [b, T, l, h, w]"
    and sh: "shape hs = [b, c, h, w]"
    and T: "0 < T" and pos: "0 < h" "0 < w"
    and tr: "\<not> (training ev \<and> b * h * w = 1)"
  shows "\<exists>y. FuturePrediction_forward ev m x hs = Inr y \<and> shape y = [b, T, c, h, w]"
proof -
  have upt: "[0..<n_gru_blocks m] = 0 # [1..<n_gru_blocks m]" using n by (simp add: upt_rec)
  have "\<exists>z. stage_loop ev m hs (0 # [1..<n_gru_blocks m]) x = Inr z \<and> shape z = [b, T, c, h, w]"
  proof (rule stage_ok [OF wf n _ sh T pos tr])
    show "shape x = [b, T, if (0::nat) = 0 then l else c, h, w]" using sx by simp
    show "\<exists>z. stage_loop ev m hs [1..<n_gru_blocks m] y = Inr z \<and> shape z = [b, T, c, h, w]"
      if "shape y = [b, T, c, h, w]" for y
      using stage_loop_ok [OF wf sh T pos tr _ that, of "[1..<n_gru_blocks m]"] by simp
  qed
  then show ?thesis by (simp add: FuturePrediction_forward_def upt)
qed

section \<open>The reference invocation\<close>

text \<open>
  Claim C1.  The reference invocation: a FuturePrediction built with
  \<open>in_channels = 64\<close>, \<open>latent_dim = 64\<close>, three GRU blocks and three residual layers
  is constructed without an exception, and on every input sequence of shape
  \<open>[4, 5, 64, 200, 200]\<close> with a current-state map of shape \<open>[4, 64, 200, 200]\<close> its
  forward pass returns a tensor of shape \<open>[4, 5, 64, 200, 200]\<close>.
\<close>

theorem FuturePrediction_reference_run:
  "\<exists>m. FuturePrediction_init \<theta> 64 64 3 3 = Inr m
     \<and> (\<forall>x hidden_state.
          shape x = [4, 5, 64, 200, 200] \<and> shape hidden_state = [4, 64, 200, 200]
          \<longrightarrow> (\<exists>y. FuturePrediction_forward ev m x hidden_state = Inr y
                  \<and> shape y = [4, 5, 64, 200, 200]))"
proof -
  obtain m where init: "FuturePrediction_init \<theta> 64 64 3 3 = Inr m"
    and n: "n_gru_blocks m = 3" and wf: "fp_wf 64 64 m"
    using FuturePrediction_init_ok [of 64 \<theta> 64 3 3] by auto
  have "\<exists>y. FuturePrediction_forward ev m x hs = Inr y \<and> shape y = [4, 5, 64, 200, 200]"
    if "shape x = [4, 5, 64, 200, 200]" "shape hs = [4, 64, 200, 200]" for x hs
    using FuturePrediction_forward_shape [OF wf _ that, of ev] n by simp
  then show ?thesis using init by blast
qed

theorem FuturePrediction_reference_run_witness:
  "\<exists>m y. FuturePrediction_init (\<lambda>_ _ _. 0) 64 64 3 3 = Inr m
     \<and> FuturePrediction_forward reference_env m (zeros [4, 5, 64, 200, 200])
          (zeros [4, 64, 200, 200]) = Inr y
     \<and> shape y = [4, 5, 64, 200, 200]"
proof -
  obtain m where m: "FuturePrediction_init (\<lambda>_ _ _. 0) 64 64 3 3 = Inr m"
    and run: "\<forall>x hidden_state.
          shape x = [4, 5, 64, 200, 200] \<and> shape hidden_state = [4, 64, 200, 200]
          \<longrightarrow> (\<exists>y. FuturePrediction_forward reference_env m x hidden_state = Inr y
                  \<and> shape y = [4, 5, 64, 200, 200])"
    using FuturePrediction_reference_run [of "\<lambda>_ _ _. 0" reference_env] by blast
  have "shape (zeros [4, 5, 64, 200, 200]) = [4, 5, 64, 200, 200]"
    "shape (zeros [4, 64, 200, 200]) = [4, 64, 200, 200]"
    by (simp_all only: shape_zeros)
  then show ?thesis using m run by blast
qed

section \<open>The cell and the specification's formulas\<close>

lemma map_tensor_map_tensor: "map_tensor f (map_tensor g x) = map_tensor (\<lambda>v. f (g v)) x"
  by (simp add: map_tensor_def comp_def)

lemma bindE_assoc: "bindE (bindE r f) g = bindE r (\<lambda>v. bindE (f v) g)"
  by (cases r) simp_all

lemma gru_cell_spec:
  "gru_cell ev m x h =
     bindE (update_gate_spec ev m x h) (\<lambda>update_gate.
     bindE (state_tilde_spec ev m x h) (\<lambda>state_tilde.
     blend_spec update_gate h state_tilde))"
proof (cases "cat_dim1 x h")
  case (Inl e)
  then show ?thesis
    by (simp add: gru_cell_def update_gate_spec_def)
next
  case cat: (Inr c)
  show ?thesis
  proof (cases "layer_forward ev (conv_update m) c")
    case (Inl e)
    then show ?thesis using cat by (simp add: gru_cell_def update_gate_spec_def)
  next
    case u: (Inr u)
    show ?thesis
    proof (cases "layer_forward ev (conv_reset m) c")
      case (Inl e)
      then show ?thesis
        using cat u
        by (simp add: gru_cell_def update_gate_spec_def state_tilde_spec_def reset_gate_spec_def)
    next
      case r: (Inr r)
      show ?thesis
        using cat u r
        by (simp add: gru_cell_def update_gate_spec_def state_tilde_spec_def
            reset_gate_spec_def blend_spec_def Let_def map_tensor_map_tensor bindE_assoc)
    qed
  qed
qed

text \<open>
  Claim C2.  Every time step of \<^verbatim>\<open>SpatialGRU.forward\<close> takes the input slice \<open>x_t\<close>
  and the carried (optionally warped) hidden state \<open>h\<close> to
  \<open>(1 - update_gate) * h + update_gate * state_tilde\<close>, where
  \<open>update_gate = sigmoid(conv_update(concat(x_t, h)) + bias_init)\<close>,
  \<open>reset_gate = sigmoid(conv_reset(concat(x_t, h)) + bias_init)\<close> and
  \<open>state_tilde = ConvBlock(concat(x_t, (1 - reset_gate) * h))\<close>; an exception in any of
  these computations is the exception of the step.
\<close>

theorem rnn_step_formulas:
  "rnn_step ev m x flow mode t h =
     bindE (select_dim1 x t) (\<lambda>x_t.
     bindE (warp_step ev flow mode t h) (\<lambda>h.
     bindE (update_gate_spec ev m x_t h) (\<lambda>update_gate.
     bindE (state_tilde_spec ev m x_t h) (\<lambda>state_tilde.
     blend_spec update_gate h state_tilde))))"
  by (simp add: rnn_step_def gru_cell_spec)


section \<open>A closed update gate\<close>

lemma SpatialGRU_init_wf:
  assumes "SpatialGRU_init \<theta> i c bias nrm act = Inr m" "0 < c"
  shows "gru_wf m \<and> input_size m = i \<and> hidden_size m = c \<and> gru_bias_init m = bias"
  using assms
  by (auto simp: SpatialGRU_init_def ConvBlock_init_def Conv2d_new_def check_groups_def
      conv_defaults_def ConvBlock_defaults_def py_or_def gru_wf_def gru_conv_args_def
      norm_for_def is_activation_def Let_def Tanh_new_def bindE_eq_Inr
      split: if_splits)

lemma update_gate_spec_ok:
  assumes wf: "gru_wf m"
    and sx: "shape x = [b, input_size m, h, w]"
    and ss: "shape st = [b, hidden_size m, h, w]"
    and pos: "0 < h" "0 < w"
  shows "\<exists>u. update_gate_spec ev m x st = Inr u \<and> shape u = [b, hidden_size m, h, w] \<and> valid u"
proof -
  from wf obtain wu where
    cu: "conv_update m = Conv2d (gru_conv_args (input_size m + hidden_size m) (hidden_size m) True) wu"
    and hd: "0 < hidden_size m"
    by (auto simp: gru_wf_def)
  have ch: "0 < input_size m + hidden_size m" using hd by simp
  obtain xs where xs: "cat_dim1 x st = Inr xs"
    and sxs: "shape xs = [b, input_size m + hidden_size m, h, w]"
    using cat_dim1_ok [OF sx ss] by auto
  have "layer_forward ev (conv_update m) xs = Inr (produced wu xs [b, hidden_size m, h, w])"
    using gru_conv_same [OF sxs ch hd pos] cu by simp
  then show ?thesis using xs by (simp add: update_gate_spec_def)
qed

lemma state_tilde_spec_ok:
  assumes wf: "gru_wf m"
    and sx: "shape x = [b, input_size m, h, w]"
    and ss: "shape st = [b, hidden_size m, h, w]"
    and pos: "0 < h" "0 < w"
    and acc: "norm_accepts ev (norm_layer (conv_state_tilde m)) b h w"
  shows "\<exists>s. state_tilde_spec ev m x st = Inr s \<and> shape s = [b, hidden_size m, h, w] \<and> valid s"
proof -
  let ?S = "[b, hidden_size m, h, w]"
  from wf obtain wr wc where
    cr: "conv_reset m = Conv2d (gru_conv_args (input_size m + hidden_size m) (hidden_size m) True) wr"
    and cc: "conv_layer (conv_state_tilde m)
          = Conv2d (gru_conv_args (input_size m + hidden_size m) (hidden_size m) False) wc"
    and nf: "norm_for (hidden_size m) (norm_layer (conv_state_tilde m))"
    and af: "is_activation (activation_layer (conv_state_tilde m))"
    and hd: "0 < hidden_size m"
    by (auto simp: gru_wf_def)
  have ch: "0 < input_size m + hidden_size m" using hd by simp
  obtain xs where xs: "cat_dim1 x st = Inr xs"
    and sxs: "shape xs = [b, input_size m + hidden_size m, h, w]"
    using cat_dim1_ok [OF sx ss] by auto
  have r: "layer_forward ev (conv_reset m) xs = Inr (produced wr xs ?S)"
    using gru_conv_same [OF sxs ch hd pos] cr by simp
  define rg where "rg = map_tensor (\<lambda>v. sigmoid_fn ev (v + gru_bias_init m)) (produced wr xs ?S)"
  have rgs: "reset_gate_spec ev m x st = Inr rg"
    using xs r by (simp add: reset_gate_spec_def rg_def)
  have srg: "shape rg = ?S" by (simp add: rg_def)
  obtain g where g: "tensor_mul (map_tensor (\<lambda>v. 1 - v) rg) st = Inr g" and sg: "shape g = ?S"
    using binop_ok [of "map_tensor (\<lambda>v. 1 - v) rg" st "(*)"] srg ss
    by (auto simp: tensor_mul_def)
  obtain xg where xg: "cat_dim1 x g = Inr xg"
    and sxg: "shape xg = [b, input_size m + hidden_size m, h, w]"
    using cat_dim1_ok [OF sx sg] by auto
  obtain tl where tl: "ConvBlock_forward ev (conv_state_tilde m) xg = Inr tl"
    and stl: "shape tl = ?S" and vtl: "valid tl"
    using ConvBlock_forward_ok [OF cc nf af acc sxg pos ch hd] by auto
  show ?thesis using rgs g xg tl stl vtl by (simp add: state_tilde_spec_def)
qed



lemma blend_lists_nth:
  assumes "length us = length hs" "length hs = length ss" "k < length hs"
  shows "map2 (+) (map2 (*) (map (\<lambda>v. 1 - v) us) hs) (map2 (*) us ss) ! k
           = hs ! k + us ! k * (ss ! k - hs ! k :: real)"
  using assms by (simp add: algebra_simps)

text \<open>Without saturation the update gate is only close to \<open>0\<close>; the new state then
  differs from the old one, element by element, by the gate times the distance to the
  candidate state.\<close>

lemma gru_cell_deviation:
  assumes init: "SpatialGRU_init \<theta> i c bias nrm act = Inr m" and c: "0 < c"
    and sx: "shape x = [b, i, h, w]" and sh: "shape st = [b, c, h, w]" and vh: "valid st"
    and pos: "0 < h" "0 < w"
    and acc: "norm_accepts ev (norm_layer (conv_state_tilde m)) b h w"
  shows "\<exists>y u s. gru_cell ev m x st = Inr y \<and> update_gate_spec ev m x st = Inr u
           \<and> state_tilde_spec ev m x st = Inr s \<and> shape y = [b, c, h, w]
           \<and> (\<forall>k < numel [b, c, h, w].
                 elems y ! k = elems st ! k + elems u ! k * (elems s ! k - elems st ! k))"
proof -
  have wf: "gru_wf m" and io: "input_size m = i" "hidden_size m = c"
    using SpatialGRU_init_wf [OF init c] by simp_all
  have sx': "shape x = [b, input_size m, h, w]" and sh': "shape st = [b, hidden_size m, h, w]"
    using sx sh io by simp_all
  obtain u where u: "update_gate_spec ev m x st = Inr u" and su: "shape u = shape st" "valid u"
    using update_gate_spec_ok [OF wf sx' sh' pos, of ev] sh' by auto
  obtain s where s: "state_tilde_spec ev m x st = Inr s" and ss: "shape s = shape st" "valid s"
    using state_tilde_spec_ok [OF wf sx' sh' pos acc] sh' by auto
  define y where "y = \<lparr>shape = shape st,
      elems = map2 (+) (map2 (*) (map (\<lambda>v. 1 - v) (elems u)) (elems st))
                (map2 (*) (elems u) (elems s))\<rparr>"
  have bl: "blend_spec u st s = Inr y"
    using su ss by (simp add: blend_spec_def tensor_mul_def tensor_add_def binop_def y_def)
  have len: "length (elems u) = length (elems st)" "length (elems st) = length (elems s)"
    "length (elems st) = numel [b, c, h, w]"
    using su ss vh sh by (simp_all add: valid_def)
  have "elems y ! k = elems st ! k + elems u ! k * (elems s ! k - elems st ! k)"
    if "k < numel [b, c, h, w]" for k
    using blend_lists_nth [OF len(1,2), of k] that len(3) by (simp add: y_def)
  moreover have "gru_cell ev m x st = Inr y" using u s bl by (simp add: gru_cell_spec)
  moreover have "shape y = [b, c, h, w]" using sh by (simp add: y_def)
  ultimately show ?thesis using u s by blast
qed








section \<open>The output sequence of SpatialGRU\<close>









section \<open>The precondition of SpatialGRU.forward\<close>

lemma no_assert_Inr [simp]: "\<not> raises_assertion (Inr v)"
  by (simp add: raises_assertion_def)

lemma no_assert_bindE:
  "\<not> raises_assertion r \<Longrightarrow> (\<And>v. \<not> raises_assertion (f v)) \<Longrightarrow> \<not> raises_assertion (bindE r f)"
  by (cases r) (simp_all add: raises_assertion_def)

lemma no_assert_select_dim1: "\<not> raises_assertion (select_dim1 x t)"
  by (simp add: raises_assertion_def select_dim1_def split: list.splits)

lemma no_assert_cat_dim1: "\<not> raises_assertion (cat_dim1 a b)"
  by (simp add: raises_assertion_def cat_dim1_def split: list.splits)

lemma no_assert_stack_dim1: "\<not> raises_assertion (stack_dim1 ts)"
  by (simp add: raises_assertion_def stack_dim1_def split: list.splits)

lemma no_assert_binop: "\<not> raises_assertion (binop f a b)"
  by (simp add: raises_assertion_def binop_def split: option.splits)

lemma no_assert_layer_forward: "\<not> raises_assertion (layer_forward ev l x)"
proof (cases l)
  case (Conv2d a wt)
  then show ?thesis
    by (simp add: raises_assertion_def conv2d_forward_def split: option.splits prod.splits)
next
  case (ConvTranspose2d a wt)
  then show ?thesis
    by (simp add: raises_assertion_def conv_transpose2d_forward_def
        split: option.splits prod.splits)
next
  case (BatchNorm2d c wt)
  then show ?thesis
    by (simp add: raises_assertion_def batch_norm2d_forward_def split: list.splits)
next
  case (InstanceNorm2d c wt)
  then show ?thesis
    by (simp add: raises_assertion_def instance_norm2d_forward_def
        split: option.splits prod.splits)
next
  case (Dropout2d p wt)
  then show ?thesis by (simp add: raises_assertion_def dropout2d_forward_def)
next
  case (MaxPool2d k st)
  then show ?thesis
    by (simp add: raises_assertion_def max_pool2d_forward_def split: option.splits prod.splits)
next
  case (Interpolate sf)
  then show ?thesis
    by (simp add: raises_assertion_def interpolate_forward_def split: list.splits)
qed simp_all

lemma no_assert_ConvBlock_forward: "\<not> raises_assertion (ConvBlock_forward ev m x)"
  unfolding ConvBlock_forward_def
  by (intro no_assert_bindE no_assert_layer_forward)
     (simp_all add: no_assert_layer_forward split: option.splits)

lemma no_assert_gru_cell: "\<not> raises_assertion (gru_cell ev m x st)"
  unfolding gru_cell_def Let_def tensor_mul_def tensor_add_def
  by (intro no_assert_bindE no_assert_layer_forward no_assert_cat_dim1 no_assert_binop
      no_assert_ConvBlock_forward)

lemma no_assert_warp_step: "\<not> raises_assertion (warp_step ev flow mode t st)"
proof (cases flow)
  case None
  then show ?thesis by (simp add: warp_step_def)
next
  case (Some fl)
  have "\<not> raises_assertion (case warp_features ev st flow_t mode of
                               None \<Rightarrow> Inl WarpError | Some warped \<Rightarrow> Inr warped)" for flow_t
    by (simp add: raises_assertion_def split: option.splits)
  then show ?thesis
    using Some by (simp add: warp_step_def no_assert_bindE no_assert_select_dim1)
qed

lemma no_assert_rnn_step: "\<not> raises_assertion (rnn_step ev m x flow mode t st)"
  unfolding rnn_step_def
  by (intro no_assert_bindE no_assert_select_dim1 no_assert_warp_step no_assert_gru_cell)

lemma no_assert_rnn_loop: "\<not> raises_assertion (rnn_loop ev m x flow mode ts st out)"
proof (induction ts arbitrary: st out)
  case Nil
  then show ?case by simp
next
  case (Cons t ts)
  show ?case
    unfolding rnn_loop.simps
    by (intro no_assert_bindE no_assert_rnn_step Cons.IH)
qed

text \<open>
  Claim C8.  \<^verbatim>\<open>SpatialGRU.forward\<close> fails with its first assertion whenever the input
  does not have exactly 5 axes, and with its second assertion whenever it has 5 axes
  but the channel axis differs from \<open>input_size\<close>; both happen before anything else
  is computed and nothing is returned.  For an input with 5 axes and \<open>input_size\<close>
  channels the call never ends in a failed assertion.
\<close>

theorem SpatialGRU_forward_precondition:
  "(length (shape x) \<noteq> 5 \<longrightarrow>
      SpatialGRU_forward ev m x state flow mode
        = Inl (AssertionError ''Input tensor must be BxTxCxHxW.''))
   \<and> (length (shape x) = 5 \<and> shape x ! 2 \<noteq> input_size m \<longrightarrow>
      SpatialGRU_forward ev m x state flow mode
        = Inl (AssertionError (''feature sizes must match, got input '' @ str_nat (shape x ! 2)
                 @ '' for layer with size '' @ str_nat (input_size m))))
   \<and> (length (shape x) = 5 \<and> shape x ! 2 = input_size m \<longrightarrow>
      \<not> raises_assertion (SpatialGRU_forward ev m x state flow mode))"
proof (intro conjI impI)
  assume "length (shape x) \<noteq> 5"
  then show "SpatialGRU_forward ev m x state flow mode
        = Inl (AssertionError ''Input tensor must be BxTxCxHxW.'')"
    by (auto simp: SpatialGRU_forward_def split: list.splits)
next
  assume a: "length (shape x) = 5 \<and> shape x ! 2 \<noteq> input_size m"
  then obtain b T c h w where sx: "shape x = [b, T, c, h, w]"
    by (auto simp: length_Suc_conv eval_nat_numeral)
  then show "SpatialGRU_forward ev m x state flow mode
        = Inl (AssertionError (''feature sizes must match, got input '' @ str_nat (shape x ! 2)
                 @ '' for layer with size '' @ str_nat (input_size m)))"
    using a by (simp add: SpatialGRU_forward_def)
next
  assume a: "length (shape x) = 5 \<and> shape x ! 2 = input_size m"
  then obtain b T c h w where sx: "shape x = [b, T, c, h, w]"
    by (auto simp: length_Suc_conv eval_nat_numeral)
  have "SpatialGRU_forward ev m x state flow mode
      = bindE (rnn_loop ev m x flow mode [0..<T]
                 (case state of None \<Rightarrow> zeros [b, hidden_size m, h, w] | Some s \<Rightarrow> s) [])
          stack_dim1"
    using a sx by (simp add: SpatialGRU_forward_def Let_def)
  then show "\<not> raises_assertion (SpatialGRU_forward ev m x state flow mode)"
    by (simp add: no_assert_bindE no_assert_rnn_loop no_assert_stack_dim1)
qed


theorem SpatialGRU_forward_precondition_witness:
  "\<exists>m. SpatialGRU_init (\<lambda>_ _ _. 0) 1 1 0 ''bn'' ''relu'' = Inr m
    \<and> SpatialGRU_forward reference_env m (zeros [1, 1, 1, 2]) None None ''bilinear''
        = Inl (AssertionError ''Input tensor must be BxTxCxHxW.'')
    \<and> SpatialGRU_forward reference_env m (zeros [1, 2, 3, 1, 2]) None None ''bilinear''
        = Inl (AssertionError ''feature sizes must match, got input 3 for layer with size 1'')
    \<and> \<not> raises_assertion
          (SpatialGRU_forward reference_env m (zeros [1, 2, 1, 1, 2]) None None ''bilinear'')"
proof -
  obtain m where init: "SpatialGRU_init (\<lambda>_ _ _. 0) 1 1 0 ''bn'' ''relu'' = Inr m"
    and i: "input_size m = 1"
    using SpatialGRU_init_bn_relu [of 1 "\<lambda>_ _ _. 0" 1 0] by auto
  note p = SpatialGRU_forward_precondition [of _ reference_env m None None "''bilinear''"]
  have "SpatialGRU_forward reference_env m (zeros [1, 1, 1, 2]) None None ''bilinear''
        = Inl (AssertionError ''Input tensor must be BxTxCxHxW.'')"
    using p [of "zeros [1, 1, 1, 2]"] by simp
  moreover have "SpatialGRU_forward reference_env m (zeros [1, 2, 3, 1, 2]) None None ''bilinear''
        = Inl (AssertionError ''feature sizes must match, got input 3 for layer with size 1'')"
    using p [of "zeros [1, 2, 3, 1, 2]"] i by (simp add: digit_char_def)
  moreover have "\<not> raises_assertion
          (SpatialGRU_forward reference_env m (zeros [1, 2, 1, 1, 2]) None None ''bilinear'')"
    using p [of "zeros [1, 2, 1, 1, 2]"] i by simp
  ultimately show ?thesis using init by blast
qed

section \<open>The stages of FuturePrediction\<close>

lemma SpatialGRU_init_fields:
  assumes "SpatialGRU_init \<theta> i c bias nrm act = Inr m"
  shows "input_size m = i \<and> hidden_size m = c \<and> gru_bias_init m = bias"
  using assms by (auto simp: SpatialGRU_init_def bindE_eq_Inr)

lemma FuturePrediction_init_fields:
  assumes init: "FuturePrediction_init \<theta> c l n r = Inr m"
  shows "n_gru_blocks m = n \<and> length (spatial_grus m) = n \<and> length (res_blocks m) = n
       \<and> (\<forall>i<n. input_size (spatial_grus m ! i) = (if i = 0 then l else c)
                \<and> hidden_size (spatial_grus m ! i) = c)"
proof -
  let ?f = "\<lambda>i. let gru_in_channels = (if i = 0 then l else c) in
              bindE (SpatialGRU_init (\<lambda>p. \<theta> (0 # i # p)) gru_in_channels c 0
                       ''bn'' ''relu'') (\<lambda>gru.
              bindE (mapE (\<lambda>j. Bottleneck_init (\<lambda>p. \<theta> (1 # i # j # p))
                                  (Bottleneck_defaults c)) [0..<r]) (\<lambda>bs.
              bindE (Sequential_new (map Module bs)) (\<lambda>res.
              Inr (gru, res))))"
  from init obtain stages where st: "mapE ?f [0..<n] = Inr stages"
    and m: "m = \<lparr>n_gru_blocks = n, spatial_grus = map fst stages, res_blocks = map snd stages\<rparr>"
    by (auto simp: FuturePrediction_init_def bindE_eq_Inr)
  have len: "length stages = n" and nth: "\<forall>i<n. ?f i = Inr (stages ! i)"
    using mapE_Inr [OF st] by auto
  have "input_size (fst (stages ! i)) = (if i = 0 then l else c)
      \<and> hidden_size (fst (stages ! i)) = c" if "i < n" for i
  proof -
    from nth that have "?f i = Inr (stages ! i)" by blast
    then obtain g bs where
      "SpatialGRU_init (\<lambda>p. \<theta> (0 # i # p)) (if i = 0 then l else c) c 0 ''bn'' ''relu'' = Inr g"
      and "(g, bs) = stages ! i"
      by (auto simp: Let_def bindE_eq_Inr)
    then show ?thesis
      using SpatialGRU_init_fields [of _ _ c 0 "''bn''" "''relu''" g] fst_conv [of g bs] by simp
  qed
  then show ?thesis using m len by simp
qed

lemma stage_loop_trace:
  assumes "stage_loop ev m hs is x = Inr y"
  shows "\<exists>xs. length xs = Suc (length is) \<and> xs ! 0 = x \<and> xs ! length is = y
           \<and> (\<forall>k<length is. \<exists>g.
                 SpatialGRU_forward ev (spatial_grus m ! (is ! k)) (xs ! k) (Some hs) None
                   ''bilinear'' = Inr g
               \<and> refine_stage ev m (is ! k) g = Inr (xs ! Suc k))"
  using assms
proof (induction "is" arbitrary: x)
  case Nil
  then have "x = y" by simp
  then show ?case by (intro exI [of _ "[x]"]) simp
next
  case (Cons i "is")
  from Cons.prems obtain g x1 where
    g: "SpatialGRU_forward ev (spatial_grus m ! i) x (Some hs) None ''bilinear'' = Inr g" and
    x1: "refine_stage ev m i g = Inr x1" and
    rest: "stage_loop ev m hs is x1 = Inr y"
    by (auto simp: bindE_eq_Inr split: if_splits)
  from Cons.IH [OF rest] obtain xs where
    len: "length xs = Suc (length is)" and x0: "xs ! 0 = x1" and xl: "xs ! length is = y" and
    tr: "\<forall>k<length is. \<exists>g.
           SpatialGRU_forward ev (spatial_grus m ! (is ! k)) (xs ! k) (Some hs) None
             ''bilinear'' = Inr g
         \<and> refine_stage ev m (is ! k) g = Inr (xs ! Suc k)"
    by blast
  have "\<exists>g'. SpatialGRU_forward ev (spatial_grus m ! ((i # is) ! k)) ((x # xs) ! k) (Some hs) None
             ''bilinear'' = Inr g'
         \<and> refine_stage ev m ((i # is) ! k) g' = Inr ((x # xs) ! Suc k)"
    if "k < length (i # is)" for k
  proof (cases k)
    case 0
    then show ?thesis using g x1 x0 by auto
  next
    case (Suc k')
    then show ?thesis using tr that by simp
  qed
  then show ?case
    using len xl by (intro exI [of _ "x # xs"]) simp
qed

text \<open>
  Claim C3.  In a FuturePrediction built by the constructor, stage 0's SpatialGRU has
  input width \<open>latent_dim\<close> and every later stage's has input width \<open>in_channels\<close>.  A
  forward pass that returns went through the stages in order: stage \<open>i\<close> ran its
  SpatialGRU on the previous stage's output (the input for stage 0) with the externally
  supplied current-state map as initial state, the same map at every stage, and the
  refined result is the next stage's input.
\<close>

theorem FuturePrediction_stages:
  assumes init: "FuturePrediction_init \<theta> in_channels latent_dim n n_res_layers = Inr m"
  shows "length (spatial_grus m) = n
       \<and> (\<forall>i<n. input_size (spatial_grus m ! i) = (if i = 0 then latent_dim else in_channels))
       \<and> (\<forall>x hidden_state y.
            FuturePrediction_forward ev m x hidden_state = Inr y \<longrightarrow>
            (\<exists>xs. length xs = Suc n \<and> xs ! 0 = x \<and> xs ! n = y
               \<and> (\<forall>i<n. \<exists>g.
                     SpatialGRU_forward ev (spatial_grus m ! i) (xs ! i) (Some hidden_state) None
                       ''bilinear'' = Inr g
                   \<and> refine_stage ev m i g = Inr (xs ! Suc i))))"
proof -
  have f: "n_gru_blocks m = n" "length (spatial_grus m) = n"
    "\<forall>i<n. input_size (spatial_grus m ! i) = (if i = 0 then latent_dim else in_channels)"
    using FuturePrediction_init_fields [OF init] by simp_all
  have "\<exists>xs. length xs = Suc n \<and> xs ! 0 = x \<and> xs ! n = y
               \<and> (\<forall>i<n. \<exists>g.
                     SpatialGRU_forward ev (spatial_grus m ! i) (xs ! i) (Some hs) None
                       ''bilinear'' = Inr g
                   \<and> refine_stage ev m i g = Inr (xs ! Suc i))"
    if "FuturePrediction_forward ev m x hs = Inr y" for x hs y
    using stage_loop_trace [of ev m hs "[0..<n]" x y] that f(1)
    by (simp add: FuturePrediction_forward_def)
  then show ?thesis using f by blast
qed


theorem FuturePrediction_stages_witness:
  "\<exists>m y xs g0 g1.
      FuturePrediction_init (\<lambda>_ _ _. 0) 2 3 2 1 = Inr m
    \<and> length (spatial_grus m) = 2
    \<and> input_size (spatial_grus m ! 0) = 3
    \<and> input_size (spatial_grus m ! 1) = 2
    \<and> FuturePrediction_forward reference_env m (zeros [1, 1, 3, 1, 2]) (zeros [1, 2, 1, 2]) = Inr y
    \<and> length xs = 3 \<and> xs ! 0 = zeros [1, 1, 3, 1, 2] \<and> xs ! 2 = y
    \<and> SpatialGRU_forward reference_env (spatial_grus m ! 0) (xs ! 0) (Some (zeros [1, 2, 1, 2]))
         None ''bilinear'' = Inr g0
    \<and> refine_stage reference_env m 0 g0 = Inr (xs ! 1)
    \<and> SpatialGRU_forward reference_env (spatial_grus m ! 1) (xs ! 1) (Some (zeros [1, 2, 1, 2]))
         None ''bilinear'' = Inr g1
    \<and> refine_stage reference_env m 1 g1 = Inr (xs ! 2)"
proof -
  let ?x = "zeros [1, 1, 3, 1, 2]" and ?hs = "zeros [1, 2, 1, 2]"
  obtain m where init: "FuturePrediction_init (\<lambda>_ _ _. 0) 2 3 2 1 = Inr m"
    and n: "n_gru_blocks m = 2" and wf: "fp_wf 2 3 m"
    using FuturePrediction_init_ok [of 2 "\<lambda>_ _ _. 0" 3 2 1] by auto
  obtain y where y: "FuturePrediction_forward reference_env m ?x ?hs = Inr y"
    using FuturePrediction_forward_shape [OF wf, of ?x 1 1 1 2 ?hs reference_env] n by auto
  note st = FuturePrediction_stages [OF init, of reference_env]
  from st y obtain xs where
    len: "length xs = Suc 2" and x0: "xs ! 0 = ?x" and x2: "xs ! 2 = y" and
    tr: "\<forall>i<2. \<exists>g. SpatialGRU_forward reference_env (spatial_grus m ! i) (xs ! i) (Some ?hs) None
                   ''bilinear'' = Inr g
               \<and> refine_stage reference_env m i g = Inr (xs ! Suc i)"
    by blast
  have i0: "(0::nat) < 2" and i1: "(1::nat) < 2" by simp_all
  obtain g0 where g0:
    "SpatialGRU_forward reference_env (spatial_grus m ! 0) (xs ! 0) (Some ?hs) None ''bilinear'' = Inr g0"
    "refine_stage reference_env m 0 g0 = Inr (xs ! 1)"
    using tr i0 by (metis One_nat_def)
  obtain g1 where g1:
    "SpatialGRU_forward reference_env (spatial_grus m ! 1) (xs ! 1) (Some ?hs) None ''bilinear'' = Inr g1"
    "refine_stage reference_env m 1 g1 = Inr (xs ! 2)"
    using tr i1 by (metis Suc_1)
  have w: "length (spatial_grus m) = 2" "input_size (spatial_grus m ! 0) = 3"
    "input_size (spatial_grus m ! 1) = 2"
    using st i0 i1 by simp_all
  have l3: "length xs = 3" using len by simp
  show ?thesis
    using init w y l3 x0 x2 g0 g1 by blast
qed

section \<open>Construction of ConvBlock and Bottleneck\<close>

text \<open>
  Claim C7.  \<^verbatim>\<open>ConvBlock(c, activation='tanh')\<close> does not construct a block: the
  constructor reaches \<^verbatim>\<open>nn.Tanh(inplace=True)\<close>, which raises a TypeError.
\<close>

theorem ConvBlock_init_tanh_raises:
  "ConvBlock_init \<theta> ((ConvBlock_defaults c)\<lparr>cb_activation := ''tanh''\<rparr>)
     = Inl (TypeError (''Tanh.__init__() got an unexpected keyword argument 'inplace'' @ [CHR 0x27]))"
  by (simp add: ConvBlock_init_def ConvBlock_defaults_def Conv2d_new_def check_groups_def
      conv_defaults_def Tanh_new_def Let_def)

text \<open>
  Claim C5.  \<^verbatim>\<open>Bottleneck(c, downsample=True)\<close> does not construct a module: the
  constructor calls \<^verbatim>\<open>projection.append\<close> with two arguments, which raises a
  TypeError, so there is no forward pass on a \<open>7 \<times> 7\<close> input.
\<close>

theorem Bottleneck_init_downsample_raises:
  "Bottleneck_init \<theta> ((Bottleneck_defaults c)\<lparr>bk_downsample := True\<rparr>)
     = Inl (TypeError ''list.append() takes exactly one argument (2 given)'')"
  by (simp add: Bottleneck_init_def Bottleneck_defaults_def Conv2d_new_def check_groups_def
      Dropout2d_new_def conv_defaults_def py_or_def list_append_def Let_def digit_char_def)

text \<open>The forward pass itself does what the claim says on the module the constructor
  is written to build (for at least two channels): a \<open>7 \<times> 7\<close> input is padded to
  \<open>8 \<times> 8\<close> for the shortcut and both paths arrive at \<open>4 \<times> 4\<close>.\<close>

lemma Bottleneck_forward_downsample_7:
  assumes sx: "shape x = [n, c, 7, 7]" and c: "1 < c"
  shows "\<exists>y. Bottleneck_forward ev (downsample_bottleneck \<theta> c) x = Inr y \<and> shape y = [n, c, 4, 4]"
proof -
  let ?m = "downsample_bottleneck \<theta> c"
  have tr: "\<not> (training ev \<and> n * 4 * 4 = 1)" "\<not> (training ev \<and> n * 7 * 7 = 1)" by simp_all
  have c2: "c div 2 \<noteq> 0" "c \<noteq> 0" using c by simp_all
  obtain r where r: "sequential_forward ev (layers ?m) x = Inr r" and sr: "shape r = [n, c, 4, 4]"
    using sx c2
    by (simp add: downsample_bottleneck_def conv_defaults_def conv2d_forward_def split_nchw_def
        conv_out_size_def batch_norm2d_forward_def dropout2d_forward_def)
  obtain p where p: "pad_right_bottom x (7 mod 2) (7 mod 2) = Inr p" and sp: "shape p = [n, c, 8, 8]"
    using sx by (simp add: pad_right_bottom_def)
  define proj where "proj = [MaxPool2d 2 2,
      Conv2d ((conv_defaults c c 1)\<lparr>cv_bias := False\<rparr>) (\<theta> [1, 0]), BatchNorm2d c (\<theta> [1, 1])]"
  have pr: "projection ?m = Some proj" "downsample_flag ?m"
    by (simp_all add: downsample_bottleneck_def proj_def)
  obtain s where s: "sequential_forward ev proj p = Inr s" and ss: "shape s = [n, c, 4, 4]"
    using sp c2
    by (simp add: proj_def conv_defaults_def conv2d_forward_def split_nchw_def
        conv_out_size_def batch_norm2d_forward_def max_pool2d_forward_def)
  obtain y where y: "tensor_add r s = Inr y" and sy: "shape y = [n, c, 4, 4]"
    using binop_ok [of r s "(+)"] sr ss by (auto simp: tensor_add_def)
  have "Bottleneck_forward ev ?m x = Inr y"
    using p by (simp add: Bottleneck_forward_def r pr sx s y)
  then show ?thesis using sy by simp
qed


lemma ConvBlock_init_transpose:
  "cb_transpose a \<Longrightarrow> ConvBlock_init \<theta> a = Inl (NameError ''name 'partial' is not defined'')"
  by (simp add: ConvBlock_init_def Let_def)

lemma ConvBlock_init_plain:
  assumes "\<not> cb_transpose a"
  shows "ConvBlock_init \<theta> a =
     (if cb_norm a \<notin> {''bn'', ''in'', ''none''}
        then Inl (ValueError (''Invalid norm '' @ cb_norm a))
      else if cb_activation a \<notin> {''relu'', ''lrelu'', ''elu'', ''tanh'', ''none''}
        then Inl (ValueError (''Invalid activation '' @ cb_activation a))
      else if cb_activation a = ''tanh''
        then Inl (TypeError (''Tanh.__init__() got an unexpected keyword argument 'inplace'' @ [CHR 0x27]))
      else Inr \<lparr>conv_layer =
                  Conv2d ((conv_defaults (cb_in_channels a)
                             (py_or (cb_out_channels a) (cb_in_channels a)) (cb_kernel_size a))
                            \<lparr>cv_stride := cb_stride a,
                             cv_padding := (cb_kernel_size a - 1) div 2,
                             cv_bias := cb_bias a\<rparr>) (\<theta> [0]),
                norm_layer =
                  (if cb_norm a = ''bn''
                     then Some (BatchNorm2d (py_or (cb_out_channels a) (cb_in_channels a)) (\<theta> [1]))
                   else if cb_norm a = ''in''
                     then Some (InstanceNorm2d (py_or (cb_out_channels a) (cb_in_channels a))
                                  (\<theta> [1]))
                   else None),
                activation_layer =
                  (if cb_activation a = ''relu'' then Some ReLU
                   else if cb_activation a = ''lrelu'' then Some (LeakyReLU (1 / 10))
                   else if cb_activation a = ''elu'' then Some ELU
                   else None)\<rparr>)"
  using assms
  by (simp add: ConvBlock_init_def Conv2d_new_def check_groups_def conv_defaults_def
      Tanh_new_def Let_def)

lemma Bottleneck_init_up_and_down:
  assumes "bk_upsample b" "bk_downsample b"
  shows "Bottleneck_init \<theta> b =
     (if bk_dilation b \<noteq> 1 then Inl (AssertionError [])
      else Inl (AssertionError ''downsample and upsample not possible simultaneously.''))"
  using assms by (simp add: Bottleneck_init_def Let_def)

text \<open>
  Claim C9.  An unknown normalisation selector, an unknown activation selector and a
  simultaneous upsample and downsample request each end the constructor with an
  exception.  With recognised selectors (and the plain convolution) the constructor
  returns a block for every activation selector except \<^verbatim>\<open>'tanh'\<close>, for which it
  raises.
\<close>

theorem construction_errors:
  "(cb_norm a \<notin> {''bn'', ''in'', ''none''} \<longrightarrow> isl (ConvBlock_init \<theta> a))
   \<and> (cb_activation a \<notin> {''relu'', ''lrelu'', ''elu'', ''tanh'', ''none''}
        \<longrightarrow> isl (ConvBlock_init \<theta> a))
   \<and> (bk_upsample b \<and> bk_downsample b \<longrightarrow> raises_assertion (Bottleneck_init \<theta>' b))
   \<and> (cb_norm a \<in> {''bn'', ''in'', ''none''}
        \<and> cb_activation a \<in> {''relu'', ''lrelu'', ''elu'', ''tanh'', ''none''}
        \<and> \<not> cb_transpose a
        \<longrightarrow> (isl (ConvBlock_init \<theta> a) \<longleftrightarrow> cb_activation a = ''tanh''))"
proof (intro conjI impI)
  assume "cb_norm a \<notin> {''bn'', ''in'', ''none''}"
  then show "isl (ConvBlock_init \<theta> a)"
    by (cases "cb_transpose a") (simp_all add: ConvBlock_init_transpose ConvBlock_init_plain)
next
  assume "cb_activation a \<notin> {''relu'', ''lrelu'', ''elu'', ''tanh'', ''none''}"
  then show "isl (ConvBlock_init \<theta> a)"
    by (cases "cb_transpose a") (simp_all add: ConvBlock_init_transpose ConvBlock_init_plain)
next
  assume "bk_upsample b \<and> bk_downsample b"
  then show "raises_assertion (Bottleneck_init \<theta>' b)"
    by (simp add: Bottleneck_init_up_and_down raises_assertion_def)
next
  assume "cb_norm a \<in> {''bn'', ''in'', ''none''}
        \<and> cb_activation a \<in> {''relu'', ''lrelu'', ''elu'', ''tanh'', ''none''}
        \<and> \<not> cb_transpose a"
  then show "isl (ConvBlock_init \<theta> a) \<longleftrightarrow> cb_activation a = ''tanh''"
    by (simp add: ConvBlock_init_plain)
qed

theorem construction_errors_witness:
  "isl (ConvBlock_init (\<lambda>_ _ _. 0) ((ConvBlock_defaults 64)\<lparr>cb_norm := ''gn''\<rparr>))
   \<and> isl (ConvBlock_init (\<lambda>_ _ _. 0) ((ConvBlock_defaults 64)\<lparr>cb_activation := ''gelu''\<rparr>))
   \<and> raises_assertion (Bottleneck_init (\<lambda>_ _ _. 0)
        ((Bottleneck_defaults 64)\<lparr>bk_upsample := True, bk_downsample := True\<rparr>))
   \<and> \<not> isl (ConvBlock_init (\<lambda>_ _ _. 0) (ConvBlock_defaults 64))
   \<and> isl (ConvBlock_init (\<lambda>_ _ _. 0) ((ConvBlock_defaults 64)\<lparr>cb_activation := ''tanh''\<rparr>))"
proof -
  note e = construction_errors [of _ "\<lambda>_ _ _. 0" _ "\<lambda>_ _ _. 0"]
  have "isl (ConvBlock_init (\<lambda>_ _ _. 0) ((ConvBlock_defaults 64)\<lparr>cb_norm := ''gn''\<rparr>))"
    using e [of "(ConvBlock_defaults 64)\<lparr>cb_norm := ''gn''\<rparr>"]
    by (simp add: ConvBlock_defaults_def)
  moreover have
    "isl (ConvBlock_init (\<lambda>_ _ _. 0) ((ConvBlock_defaults 64)\<lparr>cb_activation := ''gelu''\<rparr>))"
    using e [of "(ConvBlock_defaults 64)\<lparr>cb_activation := ''gelu''\<rparr>"]
    by (simp add: ConvBlock_defaults_def)
  moreover have "raises_assertion (Bottleneck_init (\<lambda>_ _ _. 0)
        ((Bottleneck_defaults 64)\<lparr>bk_upsample := True, bk_downsample := True\<rparr>))"
    using e [of _ "(Bottleneck_defaults 64)\<lparr>bk_upsample := True, bk_downsample := True\<rparr>"]
    by (simp add: Bottleneck_defaults_def)
  moreover have "\<not> isl (ConvBlock_init (\<lambda>_ _ _. 0) (ConvBlock_defaults 64))"
    using e [of "ConvBlock_defaults 64"] by (simp add: ConvBlock_defaults_def)
  moreover have
    "isl (ConvBlock_init (\<lambda>_ _ _. 0) ((ConvBlock_defaults 64)\<lparr>cb_activation := ''tanh''\<rparr>))"
    using e [of "(ConvBlock_defaults 64)\<lparr>cb_activation := ''tanh''\<rparr>"]
    by (simp add: ConvBlock_defaults_def)
  ultimately show ?thesis by blast
qed


lemma Bottleneck_init_not_ok:
  assumes "\<not> bottleneck_args_ok a"
  shows "isl (Bottleneck_init \<theta> a)"
  using assms
  by (auto simp: bottleneck_args_ok_def Bottleneck_init_def Let_def Conv2d_new_def
      ConvTranspose2d_new_def check_groups_def Dropout2d_new_def conv_defaults_def)

lemma Bottleneck_init_projection_branch:
  assumes "bottleneck_args_ok a" "needs_projection a"
  shows "Bottleneck_init \<theta> a
           = Inl (TypeError ''list.append() takes exactly one argument (2 given)'')"
  using assms
  by (auto simp: bottleneck_args_ok_def needs_projection_def Bottleneck_init_def Let_def
      Conv2d_new_def ConvTranspose2d_new_def check_groups_def Dropout2d_new_def
      conv_defaults_def list_append_def digit_char_def)

lemma Bottleneck_init_identity_branch:
  assumes "bottleneck_args_ok a" "\<not> needs_projection a"
  shows "\<exists>m. Bottleneck_init \<theta> a = Inr m \<and> projection m = None"
  using assms
  by (auto simp: bottleneck_args_ok_def needs_projection_def Bottleneck_init_def Let_def
      Conv2d_new_def ConvTranspose2d_new_def check_groups_def Dropout2d_new_def
      conv_defaults_def)

text \<open>
  Claim C6, as amended.  Every Bottleneck configuration that requires a projection
  shortcut (effective \<^verbatim>\<open>out_channels or in_channels\<close> different from \<^verbatim>\<open>in_channels\<close>, or
  \<^verbatim>\<open>upsample\<close>, or \<^verbatim>\<open>downsample\<close>) ends the constructor with an exception; when the
  earlier checks of the constructor pass, the exception is the TypeError of
  \<^verbatim>\<open>list.append\<close> called with two layers.  A configuration that requires no projection
  and passes those checks (dilation 1, positive \<^verbatim>\<open>groups\<close> dividing the bottleneck
  width, dropout within \<open>[0, 1]\<close>) constructs a module with the identity shortcut.
\<close>

theorem Bottleneck_init_projection:
  "(needs_projection a \<longrightarrow> isl (Bottleneck_init \<theta> a))
   \<and> (needs_projection a \<and> bottleneck_args_ok a \<longrightarrow>
        Bottleneck_init \<theta> a
          = Inl (TypeError ''list.append() takes exactly one argument (2 given)''))
   \<and> (\<not> needs_projection a \<and> bottleneck_args_ok a \<longrightarrow>
        (\<exists>m. Bottleneck_init \<theta> a = Inr m \<and> projection m = None))"
proof (intro conjI impI)
  assume np: "needs_projection a"
  show "isl (Bottleneck_init \<theta> a)"
  proof (cases "bottleneck_args_ok a")
    case True
    then show ?thesis using np by (simp add: Bottleneck_init_projection_branch)
  next
    case False
    then show ?thesis by (rule Bottleneck_init_not_ok)
  qed
next
  assume "needs_projection a \<and> bottleneck_args_ok a"
  then show "Bottleneck_init \<theta> a
          = Inl (TypeError ''list.append() takes exactly one argument (2 given)'')"
    by (simp add: Bottleneck_init_projection_branch)
next
  assume "\<not> needs_projection a \<and> bottleneck_args_ok a"
  then show "\<exists>m. Bottleneck_init \<theta> a = Inr m \<and> projection m = None"
    by (simp add: Bottleneck_init_identity_branch)
qed

theorem Bottleneck_init_projection_witness:
  "isl (Bottleneck_init (\<lambda>_ _ _. 0) ((Bottleneck_defaults 64)\<lparr>bk_out_channels := Some 128\<rparr>))
   \<and> Bottleneck_init (\<lambda>_ _ _. 0) ((Bottleneck_defaults 64)\<lparr>bk_upsample := True\<rparr>)
       = Inl (TypeError ''list.append() takes exactly one argument (2 given)'')
   \<and> (\<exists>m. Bottleneck_init (\<lambda>_ _ _. 0) (Bottleneck_defaults 64) = Inr m \<and> projection m = None)"
proof -
  note p = Bottleneck_init_projection [of _ "\<lambda>_ _ _. 0"]
  have "isl (Bottleneck_init (\<lambda>_ _ _. 0) ((Bottleneck_defaults 64)\<lparr>bk_out_channels := Some 128\<rparr>))"
    using p [of "(Bottleneck_defaults 64)\<lparr>bk_out_channels := Some 128\<rparr>"]
    by (simp add: needs_projection_def Bottleneck_defaults_def py_or_def)
  moreover have "Bottleneck_init (\<lambda>_ _ _. 0) ((Bottleneck_defaults 64)\<lparr>bk_upsample := True\<rparr>)
       = Inl (TypeError ''list.append() takes exactly one argument (2 given)'')"
    using p [of "(Bottleneck_defaults 64)\<lparr>bk_upsample := True\<rparr>"]
    by (simp add: needs_projection_def bottleneck_args_ok_def Bottleneck_defaults_def)
  moreover have
    "\<exists>m. Bottleneck_init (\<lambda>_ _ _. 0) (Bottleneck_defaults 64) = Inr m \<and> projection m = None"
    using p [of "Bottleneck_defaults 64"]
    by (simp add: needs_projection_def bottleneck_args_ok_def Bottleneck_defaults_def py_or_def)
  ultimately show ?thesis by blast
qed

theorem Bottleneck_init_dilation_counterexample:
  "\<not> needs_projection ((Bottleneck_defaults 64)\<lparr>bk_dilation := 2\<rparr>)
   \<and> Bottleneck_init (\<lambda>_ _ _. 0) ((Bottleneck_defaults 64)\<lparr>bk_dilation := 2\<rparr>)
       = Inl (AssertionError [])"
  by (simp add: Bottleneck_init_def Bottleneck_defaults_def needs_projection_def py_or_def
      Let_def)

end
